theory Spec2Isabelle
  imports Complex_Main "HOL-Library.AList"
begin

section \<open>Python strings\<close>

text \<open>
  A Python \<open>str\<close> is a sequence of Unicode code points, and \<open>len\<close> counts code points.
  A string is therefore modelled as a list of code points, each a natural number;
  \<open>str\<close> embeds an ASCII literal.
\<close>

type_synonym codepoint = nat
type_synonym pystr = "codepoint list"

definition str :: "string \<Rightarrow> pystr" where
  "str s = map of_char s"

subsection \<open>\<open>str.upper\<close>\<close>

text \<open>
  \<open>str.upper()\<close> replaces every character by its full Unicode uppercase mapping, which
  is a string of one to three code points and does not depend on the neighbouring
  characters. The pages below list every code point whose uppercase mapping differs from
  the code point itself (Unicode 14.0.0, the character database of CPython 3.11), grouped by
  \<open>c div 64\<close>; every other code point is mapped to itself.
\<close>

definition upper_page_1 :: "(codepoint \<times> codepoint list) list" where
  "upper_page_1 = [
     (97, [65]), (98, [66]), (99, [67]), (100, [68]), (101, [69]), (102, [70]), (103, [71]),
     (104, [72]), (105, [73]), (106, [74]), (107, [75]), (108, [76]), (109, [77]), (110, [78]),
     (111, [79]), (112, [80]), (113, [81]), (114, [82]), (115, [83]), (116, [84]), (117, [85]),
     (118, [86]), (119, [87]), (120, [88]), (121, [89]), (122, [90])]"

definition upper_page_2 :: "(codepoint \<times> codepoint list) list" where
  "upper_page_2 = [
     (181, [924])]"

definition upper_page_3 :: "(codepoint \<times> codepoint list) list" where
  "upper_page_3 = [
     (223, [83, 83]), (224, [192]), (225, [193]), (226, [194]), (227, [195]), (228, [196]),
     (229, [197]), (230, [198]), (231, [199]), (232, [200]), (233, [201]), (234, [202]),
     (235, [203]), (236, [204]), (237, [205]), (238, [206]), (239, [207]), (240, [208]),
     (241, [209]), (242, [210]), (243, [211]), (244, [212]), (245, [213]), (246, [214]),
     (248, [216]), (249, [217]), (250, [218]), (251, [219]), (252, [220]), (253, [221]),
     (254, [222]), (255, [376])]"

definition upper_page_4 :: "(codepoint \<times> codepoint list) list" where
  "upper_page_4 = [
     (257, [256]), (259, [258]), (261, [260]), (263, [262]), (265, [264]), (267, [266]),
     (269, [268]), (271, [270]), (273, [272]), (275, [274]), (277, [276]), (279, [278]),
     (281, [280]), (283, [282]), (285, [284]), (287, [286]), (289, [288]), (291, [290]),
     (293, [292]), (295, [294]), (297, [296]), (299, [298]), (301, [300]), (303, [302]),
     (305, [73]), (307, [306]), (309, [308]), (311, [310]), (314, [313]), (316, [315]),
     (318, [317])]"

definition upper_page_5 :: "(codepoint \<times> codepoint list) list" where
  "upper_page_5 = [
     (320, [319]), (322, [321]), (324, [323]), (326, [325]), (328, [327]), (329, [700, 78]),
     (331, [330]), (333, [332]), (335, [334]), (337, [336]), (339, [338]), (341, [340]),
     (343, [342]), (345, [344]), (347, [346]), (349, [348]), (351, [350]), (353, [352]),
     (355, [354]), (357, [356]), (359, [358]), (361, [360]), (363, [362]), (365, [364]),
     (367, [366]), (369, [368]), (371, [370]), (373, [372]), (375, [374]), (378, [377]),
     (380, [379]), (382, [381]), (383, [83])]"

definition upper_page_6 :: "(codepoint \<times> codepoint list) list" where
  "upper_page_6 = [
     (384, [579]), (387, [386]), (389, [388]), (392, [391]), (396, [395]), (402, [401]),
     (405, [502]), (409, [408]), (410, [573]), (414, [544]), (417, [416]), (419, [418]),
     (421, [420]), (424, [423]), (429, [428]), (432, [431]), (436, [435]), (438, [437]),
     (441, [440]), (445, [444]), (447, [503])]"

definition upper_page_7 :: "(codepoint \<times> codepoint list) list" where
  "upper_page_7 = [
     (453, [452]), (454, [452]), (456, [455]), (457, [455]), (459, [458]), (460, [458]),
     (462, [461]), (464, [463]), (466, [465]), (468, [467]), (470, [469]), (472, [471]),
     (474, [473]), (476, [475]), (477, [398]), (479, [478]), (481, [480]), (483, [482]),
     (485, [484]), (487, [486]), (489, [488]), (491, [490]), (493, [492]), (495, [494]),
     (496, [74, 780]), (498, [497]), (499, [497]), (501, [500]), (505, [504]), (507, [506]),
     (509, [508]), (511, [510])]"

definition upper_page_8 :: "(codepoint \<times> codepoint list) list" where
  "upper_page_8 = [
     (513, [512]), (515, [514]), (517, [516]), (519, [518]), (521, [520]), (523, [522]),
     (525, [524]), (527, [526]), (529, [528]), (531, [530]), (533, [532]), (535, [534]),
     (537, [536]), (539, [538]), (541, [540]), (543, [542]), (547, [546]), (549, [548]),
     (551, [550]), (553, [552]), (555, [554]), (557, [556]), (559, [558]), (561, [560]),
     (563, [562]), (572, [571]), (575, [11390])]"

definition upper_page_9 :: "(codepoint \<times> codepoint list) list" where
  "upper_page_9 = [
     (576, [11391]), (578, [577]), (583, [582]), (585, [584]), (587, [586]), (589, [588]),
     (591, [590]), (592, [11375]), (593, [11373]), (594, [11376]), (595, [385]), (596, [390]),
     (598, [393]), (599, [394]), (601, [399]), (603, [400]), (604, [42923]), (608, [403]),
     (609, [42924]), (611, [404]), (613, [42893]), (614, [42922]), (616, [407]), (617, [406]),
     (618, [42926]), (619, [11362]), (620, [42925]), (623, [412]), (625, [11374]), (626, [413]),
     (629, [415]), (637, [11364])]"

definition upper_page_10 :: "(codepoint \<times> codepoint list) list" where
  "upper_page_10 = [
     (640, [422]), (642, [42949]), (643, [425]), (647, [42929]), (648, [430]), (649, [580]),
     (650, [433]), (651, [434]), (652, [581]), (658, [439]), (669, [42930]), (670, [42928])]"

definition upper_page_13 :: "(codepoint \<times> codepoint list) list" where
  "upper_page_13 = [
     (837, [921]), (881, [880]), (883, [882]), (887, [886]), (891, [1021]), (892, [1022]),
     (893, [1023])]"

definition upper_page_14 :: "(codepoint \<times> codepoint list) list" where
  "upper_page_14 = [
     (912, [921, 776, 769]), (940, [902]), (941, [904]), (942, [905]), (943, [906]),
     (944, [933, 776, 769]), (945, [913]), (946, [914]), (947, [915]), (948, [916]),
     (949, [917]), (950, [918]), (951, [919]), (952, [920]), (953, [921]), (954, [922]),
     (955, [923]), (956, [924]), (957, [925]), (958, [926]), (959, [927])]"

definition upper_page_15 :: "(codepoint \<times> codepoint list) list" where
  "upper_page_15 = [
     (960, [928]), (961, [929]), (962, [931]), (963, [931]), (964, [932]), (965, [933]),
     (966, [934]), (967, [935]), (968, [936]), (969, [937]), (970, [938]), (971, [939]),
     (972, [908]), (973, [910]), (974, [911]), (976, [914]), (977, [920]), (981, [934]),
     (982, [928]), (983, [975]), (985, [984]), (987, [986]), (989, [988]), (991, [990]),
     (993, [992]), (995, [994]), (997, [996]), (999, [998]), (1001, [1000]), (1003, [1002]),
     (1005, [1004]), (1007, [1006]), (1008, [922]), (1009, [929]), (1010, [1017]), (1011, [895]),
     (1013, [917]), (1016, [1015]), (1019, [1018])]"

definition upper_page_16 :: "(codepoint \<times> codepoint list) list" where
  "upper_page_16 = [
     (1072, [1040]), (1073, [1041]), (1074, [1042]), (1075, [1043]), (1076, [1044]),
     (1077, [1045]), (1078, [1046]), (1079, [1047]), (1080, [1048]), (1081, [1049]),
     (1082, [1050]), (1083, [1051]), (1084, [1052]), (1085, [1053]), (1086, [1054]),
     (1087, [1055])]"

definition upper_page_17 :: "(codepoint \<times> codepoint list) list" where
  "upper_page_17 = [
     (1088, [1056]), (1089, [1057]), (1090, [1058]), (1091, [1059]), (1092, [1060]),
     (1093, [1061]), (1094, [1062]), (1095, [1063]), (1096, [1064]), (1097, [1065]),
     (1098, [1066]), (1099, [1067]), (1100, [1068]), (1101, [1069]), (1102, [1070]),
     (1103, [1071]), (1104, [1024]), (1105, [1025]), (1106, [1026]), (1107, [1027]),
     (1108, [1028]), (1109, [1029]), (1110, [1030]), (1111, [1031]), (1112, [1032]),
     (1113, [1033]), (1114, [1034]), (1115, [1035]), (1116, [1036]), (1117, [1037]),
     (1118, [1038]), (1119, [1039]), (1121, [1120]), (1123, [1122]), (1125, [1124]),
     (1127, [1126]), (1129, [1128]), (1131, [1130]), (1133, [1132]), (1135, [1134]),
     (1137, [1136]), (1139, [1138]), (1141, [1140]), (1143, [1142]), (1145, [1144]),
     (1147, [1146]), (1149, [1148]), (1151, [1150])]"

definition upper_page_18 :: "(codepoint \<times> codepoint list) list" where
  "upper_page_18 = [
     (1153, [1152]), (1163, [1162]), (1165, [1164]), (1167, [1166]), (1169, [1168]),
     (1171, [1170]), (1173, [1172]), (1175, [1174]), (1177, [1176]), (1179, [1178]),
     (1181, [1180]), (1183, [1182]), (1185, [1184]), (1187, [1186]), (1189, [1188]),
     (1191, [1190]), (1193, [1192]), (1195, [1194]), (1197, [1196]), (1199, [1198]),
     (1201, [1200]), (1203, [1202]), (1205, [1204]), (1207, [1206]), (1209, [1208]),
     (1211, [1210]), (1213, [1212]), (1215, [1214])]"

definition upper_page_19 :: "(codepoint \<times> codepoint list) list" where
  "upper_page_19 = [
     (1218, [1217]), (1220, [1219]), (1222, [1221]), (1224, [1223]), (1226, [1225]),
     (1228, [1227]), (1230, [1229]), (1231, [1216]), (1233, [1232]), (1235, [1234]),
     (1237, [1236]), (1239, [1238]), (1241, [1240]), (1243, [1242]), (1245, [1244]),
     (1247, [1246]), (1249, [1248]), (1251, [1250]), (1253, [1252]), (1255, [1254]),
     (1257, [1256]), (1259, [1258]), (1261, [1260]), (1263, [1262]), (1265, [1264]),
     (1267, [1266]), (1269, [1268]), (1271, [1270]), (1273, [1272]), (1275, [1274]),
     (1277, [1276]), (1279, [1278])]"

definition upper_page_20 :: "(codepoint \<times> codepoint list) list" where
  "upper_page_20 = [
     (1281, [1280]), (1283, [1282]), (1285, [1284]), (1287, [1286]), (1289, [1288]),
     (1291, [1290]), (1293, [1292]), (1295, [1294]), (1297, [1296]), (1299, [1298]),
     (1301, [1300]), (1303, [1302]), (1305, [1304]), (1307, [1306]), (1309, [1308]),
     (1311, [1310]), (1313, [1312]), (1315, [1314]), (1317, [1316]), (1319, [1318]),
     (1321, [1320]), (1323, [1322]), (1325, [1324]), (1327, [1326])]"

definition upper_page_21 :: "(codepoint \<times> codepoint list) list" where
  "upper_page_21 = [
     (1377, [1329]), (1378, [1330]), (1379, [1331]), (1380, [1332]), (1381, [1333]),
     (1382, [1334]), (1383, [1335]), (1384, [1336]), (1385, [1337]), (1386, [1338]),
     (1387, [1339]), (1388, [1340]), (1389, [1341]), (1390, [1342]), (1391, [1343]),
     (1392, [1344]), (1393, [1345]), (1394, [1346]), (1395, [1347]), (1396, [1348]),
     (1397, [1349]), (1398, [1350]), (1399, [1351]), (1400, [1352]), (1401, [1353]),
     (1402, [1354]), (1403, [1355]), (1404, [1356]), (1405, [1357]), (1406, [1358]),
     (1407, [1359])]"

definition upper_page_22 :: "(codepoint \<times> codepoint list) list" where
  "upper_page_22 = [
     (1408, [1360]), (1409, [1361]), (1410, [1362]), (1411, [1363]), (1412, [1364]),
     (1413, [1365]), (1414, [1366]), (1415, [1333, 1362])]"

definition upper_page_67 :: "(codepoint \<times> codepoint list) list" where
  "upper_page_67 = [
     (4304, [7312]), (4305, [7313]), (4306, [7314]), (4307, [7315]), (4308, [7316]),
     (4309, [7317]), (4310, [7318]), (4311, [7319]), (4312, [7320]), (4313, [7321]),
     (4314, [7322]), (4315, [7323]), (4316, [7324]), (4317, [7325]), (4318, [7326]),
     (4319, [7327]), (4320, [7328]), (4321, [7329]), (4322, [7330]), (4323, [7331]),
     (4324, [7332]), (4325, [7333]), (4326, [7334]), (4327, [7335]), (4328, [7336]),
     (4329, [7337]), (4330, [7338]), (4331, [7339]), (4332, [7340]), (4333, [7341]),
     (4334, [7342]), (4335, [7343]), (4336, [7344]), (4337, [7345]), (4338, [7346]),
     (4339, [7347]), (4340, [7348]), (4341, [7349]), (4342, [7350]), (4343, [7351]),
     (4344, [7352]), (4345, [7353]), (4346, [7354]), (4349, [7357]), (4350, [7358]),
     (4351, [7359])]"

definition upper_page_79 :: "(codepoint \<times> codepoint list) list" where
  "upper_page_79 = [
     (5112, [5104]), (5113, [5105]), (5114, [5106]), (5115, [5107]), (5116, [5108]),
     (5117, [5109])]"

definition upper_page_114 :: "(codepoint \<times> codepoint list) list" where
  "upper_page_114 = [
     (7296, [1042]), (7297, [1044]), (7298, [1054]), (7299, [1057]), (7300, [1058]),
     (7301, [1058]), (7302, [1066]), (7303, [1122]), (7304, [42570])]"

definition upper_page_117 :: "(codepoint \<times> codepoint list) list" where
  "upper_page_117 = [
     (7545, [42877]), (7549, [11363])]"

definition upper_page_118 :: "(codepoint \<times> codepoint list) list" where
  "upper_page_118 = [
     (7566, [42950])]"

definition upper_page_120 :: "(codepoint \<times> codepoint list) list" where
  "upper_page_120 = [
     (7681, [7680]), (7683, [7682]), (7685, [7684]), (7687, [7686]), (7689, [7688]),
     (7691, [7690]), (7693, [7692]), (7695, [7694]), (7697, [7696]), (7699, [7698]),
     (7701, [7700]), (7703, [7702]), (7705, [7704]), (7707, [7706]), (7709, [7708]),
     (7711, [7710]), (7713, [7712]), (7715, [7714]), (7717, [7716]), (7719, [7718]),
     (7721, [7720]), (7723, [7722]), (7725, [7724]), (7727, [7726]), (7729, [7728]),
     (7731, [7730]), (7733, [7732]), (7735, [7734]), (7737, [7736]), (7739, [7738]),
     (7741, [7740]), (7743, [7742])]"

definition upper_page_121 :: "(codepoint \<times> codepoint list) list" where
  "upper_page_121 = [
     (7745, [7744]), (7747, [7746]), (7749, [7748]), (7751, [7750]), (7753, [7752]),
     (7755, [7754]), (7757, [7756]), (7759, [7758]), (7761, [7760]), (7763, [7762]),
     (7765, [7764]), (7767, [7766]), (7769, [7768]), (7771, [7770]), (7773, [7772]),
     (7775, [7774]), (7777, [7776]), (7779, [7778]), (7781, [7780]), (7783, [7782]),
     (7785, [7784]), (7787, [7786]), (7789, [7788]), (7791, [7790]), (7793, [7792]),
     (7795, [7794]), (7797, [7796]), (7799, [7798]), (7801, [7800]), (7803, [7802]),
     (7805, [7804]), (7807, [7806])]"

definition upper_page_122 :: "(codepoint \<times> codepoint list) list" where
  "upper_page_122 = [
     (7809, [7808]), (7811, [7810]), (7813, [7812]), (7815, [7814]), (7817, [7816]),
     (7819, [7818]), (7821, [7820]), (7823, [7822]), (7825, [7824]), (7827, [7826]),
     (7829, [7828]), (7830, [72, 817]), (7831, [84, 776]), (7832, [87, 778]), (7833, [89, 778]),
     (7834, [65, 702]), (7835, [7776]), (7841, [7840]), (7843, [7842]), (7845, [7844]),
     (7847, [7846]), (7849, [7848]), (7851, [7850]), (7853, [7852]), (7855, [7854]),
     (7857, [7856]), (7859, [7858]), (7861, [7860]), (7863, [7862]), (7865, [7864]),
     (7867, [7866]), (7869, [7868]), (7871, [7870])]"

definition upper_page_123 :: "(codepoint \<times> codepoint list) list" where
  "upper_page_123 = [
     (7873, [7872]), (7875, [7874]), (7877, [7876]), (7879, [7878]), (7881, [7880]),
     (7883, [7882]), (7885, [7884]), (7887, [7886]), (7889, [7888]), (7891, [7890]),
     (7893, [7892]), (7895, [7894]), (7897, [7896]), (7899, [7898]), (7901, [7900]),
     (7903, [7902]), (7905, [7904]), (7907, [7906]), (7909, [7908]), (7911, [7910]),
     (7913, [7912]), (7915, [7914]), (7917, [7916]), (7919, [7918]), (7921, [7920]),
     (7923, [7922]), (7925, [7924]), (7927, [7926]), (7929, [7928]), (7931, [7930]),
     (7933, [7932]), (7935, [7934])]"

definition upper_page_124 :: "(codepoint \<times> codepoint list) list" where
  "upper_page_124 = [
     (7936, [7944]), (7937, [7945]), (7938, [7946]), (7939, [7947]), (7940, [7948]),
     (7941, [7949]), (7942, [7950]), (7943, [7951]), (7952, [7960]), (7953, [7961]),
     (7954, [7962]), (7955, [7963]), (7956, [7964]), (7957, [7965]), (7968, [7976]),
     (7969, [7977]), (7970, [7978]), (7971, [7979]), (7972, [7980]), (7973, [7981]),
     (7974, [7982]), (7975, [7983]), (7984, [7992]), (7985, [7993]), (7986, [7994]),
     (7987, [7995]), (7988, [7996]), (7989, [7997]), (7990, [7998]), (7991, [7999])]"

definition upper_page_125 :: "(codepoint \<times> codepoint list) list" where
  "upper_page_125 = [
     (8000, [8008]), (8001, [8009]), (8002, [8010]), (8003, [8011]), (8004, [8012]),
     (8005, [8013]), (8016, [933, 787]), (8017, [8025]), (8018, [933, 787, 768]), (8019, [8027]),
     (8020, [933, 787, 769]), (8021, [8029]), (8022, [933, 787, 834]), (8023, [8031]),
     (8032, [8040]), (8033, [8041]), (8034, [8042]), (8035, [8043]), (8036, [8044]),
     (8037, [8045]), (8038, [8046]), (8039, [8047]), (8048, [8122]), (8049, [8123]),
     (8050, [8136]), (8051, [8137]), (8052, [8138]), (8053, [8139]), (8054, [8154]),
     (8055, [8155]), (8056, [8184]), (8057, [8185]), (8058, [8170]), (8059, [8171]),
     (8060, [8186]), (8061, [8187])]"

definition upper_page_126 :: "(codepoint \<times> codepoint list) list" where
  "upper_page_126 = [
     (8064, [7944, 921]), (8065, [7945, 921]), (8066, [7946, 921]), (8067, [7947, 921]),
     (8068, [7948, 921]), (8069, [7949, 921]), (8070, [7950, 921]), (8071, [7951, 921]),
     (8072, [7944, 921]), (8073, [7945, 921]), (8074, [7946, 921]), (8075, [7947, 921]),
     (8076, [7948, 921]), (8077, [7949, 921]), (8078, [7950, 921]), (8079, [7951, 921]),
     (8080, [7976, 921]), (8081, [7977, 921]), (8082, [7978, 921]), (8083, [7979, 921]),
     (8084, [7980, 921]), (8085, [7981, 921]), (8086, [7982, 921]), (8087, [7983, 921]),
     (8088, [7976, 921]), (8089, [7977, 921]), (8090, [7978, 921]), (8091, [7979, 921]),
     (8092, [7980, 921]), (8093, [7981, 921]), (8094, [7982, 921]), (8095, [7983, 921]),
     (8096, [8040, 921]), (8097, [8041, 921]), (8098, [8042, 921]), (8099, [8043, 921]),
     (8100, [8044, 921]), (8101, [8045, 921]), (8102, [8046, 921]), (8103, [8047, 921]),
     (8104, [8040, 921]), (8105, [8041, 921]), (8106, [8042, 921]), (8107, [8043, 921]),
     (8108, [8044, 921]), (8109, [8045, 921]), (8110, [8046, 921]), (8111, [8047, 921]),
     (8112, [8120]), (8113, [8121]), (8114, [8122, 921]), (8115, [913, 921]), (8116, [902, 921]),
     (8118, [913, 834]), (8119, [913, 834, 921]), (8124, [913, 921]), (8126, [921])]"

definition upper_page_127 :: "(codepoint \<times> codepoint list) list" where
  "upper_page_127 = [
     (8130, [8138, 921]), (8131, [919, 921]), (8132, [905, 921]), (8134, [919, 834]),
     (8135, [919, 834, 921]), (8140, [919, 921]), (8144, [8152]), (8145, [8153]),
     (8146, [921, 776, 768]), (8147, [921, 776, 769]), (8150, [921, 834]),
     (8151, [921, 776, 834]), (8160, [8168]), (8161, [8169]), (8162, [933, 776, 768]),
     (8163, [933, 776, 769]), (8164, [929, 787]), (8165, [8172]), (8166, [933, 834]),
     (8167, [933, 776, 834]), (8178, [8186, 921]), (8179, [937, 921]), (8180, [911, 921]),
     (8182, [937, 834]), (8183, [937, 834, 921]), (8188, [937, 921])]"

definition upper_page_133 :: "(codepoint \<times> codepoint list) list" where
  "upper_page_133 = [
     (8526, [8498]), (8560, [8544]), (8561, [8545]), (8562, [8546]), (8563, [8547]),
     (8564, [8548]), (8565, [8549]), (8566, [8550]), (8567, [8551]), (8568, [8552]),
     (8569, [8553]), (8570, [8554]), (8571, [8555]), (8572, [8556]), (8573, [8557]),
     (8574, [8558]), (8575, [8559])]"

definition upper_page_134 :: "(codepoint \<times> codepoint list) list" where
  "upper_page_134 = [
     (8580, [8579])]"

definition upper_page_147 :: "(codepoint \<times> codepoint list) list" where
  "upper_page_147 = [
     (9424, [9398]), (9425, [9399]), (9426, [9400]), (9427, [9401]), (9428, [9402]),
     (9429, [9403]), (9430, [9404]), (9431, [9405]), (9432, [9406]), (9433, [9407]),
     (9434, [9408]), (9435, [9409]), (9436, [9410]), (9437, [9411]), (9438, [9412]),
     (9439, [9413]), (9440, [9414]), (9441, [9415]), (9442, [9416]), (9443, [9417]),
     (9444, [9418]), (9445, [9419]), (9446, [9420]), (9447, [9421]), (9448, [9422]),
     (9449, [9423])]"

definition upper_page_176 :: "(codepoint \<times> codepoint list) list" where
  "upper_page_176 = [
     (11312, [11264]), (11313, [11265]), (11314, [11266]), (11315, [11267]), (11316, [11268]),
     (11317, [11269]), (11318, [11270]), (11319, [11271]), (11320, [11272]), (11321, [11273]),
     (11322, [11274]), (11323, [11275]), (11324, [11276]), (11325, [11277]), (11326, [11278]),
     (11327, [11279])]"

definition upper_page_177 :: "(codepoint \<times> codepoint list) list" where
  "upper_page_177 = [
     (11328, [11280]), (11329, [11281]), (11330, [11282]), (11331, [11283]), (11332, [11284]),
     (11333, [11285]), (11334, [11286]), (11335, [11287]), (11336, [11288]), (11337, [11289]),
     (11338, [11290]), (11339, [11291]), (11340, [11292]), (11341, [11293]), (11342, [11294]),
     (11343, [11295]), (11344, [11296]), (11345, [11297]), (11346, [11298]), (11347, [11299]),
     (11348, [11300]), (11349, [11301]), (11350, [11302]), (11351, [11303]), (11352, [11304]),
     (11353, [11305]), (11354, [11306]), (11355, [11307]), (11356, [11308]), (11357, [11309]),
     (11358, [11310]), (11359, [11311]), (11361, [11360]), (11365, [570]), (11366, [574]),
     (11368, [11367]), (11370, [11369]), (11372, [11371]), (11379, [11378]), (11382, [11381])]"

definition upper_page_178 :: "(codepoint \<times> codepoint list) list" where
  "upper_page_178 = [
     (11393, [11392]), (11395, [11394]), (11397, [11396]), (11399, [11398]), (11401, [11400]),
     (11403, [11402]), (11405, [11404]), (11407, [11406]), (11409, [11408]), (11411, [11410]),
     (11413, [11412]), (11415, [11414]), (11417, [11416]), (11419, [11418]), (11421, [11420]),
     (11423, [11422]), (11425, [11424]), (11427, [11426]), (11429, [11428]), (11431, [11430]),
     (11433, [11432]), (11435, [11434]), (11437, [11436]), (11439, [11438]), (11441, [11440]),
     (11443, [11442]), (11445, [11444]), (11447, [11446]), (11449, [11448]), (11451, [11450]),
     (11453, [11452]), (11455, [11454])]"

definition upper_page_179 :: "(codepoint \<times> codepoint list) list" where
  "upper_page_179 = [
     (11457, [11456]), (11459, [11458]), (11461, [11460]), (11463, [11462]), (11465, [11464]),
     (11467, [11466]), (11469, [11468]), (11471, [11470]), (11473, [11472]), (11475, [11474]),
     (11477, [11476]), (11479, [11478]), (11481, [11480]), (11483, [11482]), (11485, [11484]),
     (11487, [11486]), (11489, [11488]), (11491, [11490]), (11500, [11499]), (11502, [11501]),
     (11507, [11506])]"

definition upper_page_180 :: "(codepoint \<times> codepoint list) list" where
  "upper_page_180 = [
     (11520, [4256]), (11521, [4257]), (11522, [4258]), (11523, [4259]), (11524, [4260]),
     (11525, [4261]), (11526, [4262]), (11527, [4263]), (11528, [4264]), (11529, [4265]),
     (11530, [4266]), (11531, [4267]), (11532, [4268]), (11533, [4269]), (11534, [4270]),
     (11535, [4271]), (11536, [4272]), (11537, [4273]), (11538, [4274]), (11539, [4275]),
     (11540, [4276]), (11541, [4277]), (11542, [4278]), (11543, [4279]), (11544, [4280]),
     (11545, [4281]), (11546, [4282]), (11547, [4283]), (11548, [4284]), (11549, [4285]),
     (11550, [4286]), (11551, [4287]), (11552, [4288]), (11553, [4289]), (11554, [4290]),
     (11555, [4291]), (11556, [4292]), (11557, [4293]), (11559, [4295]), (11565, [4301])]"

definition upper_page_665 :: "(codepoint \<times> codepoint list) list" where
  "upper_page_665 = [
     (42561, [42560]), (42563, [42562]), (42565, [42564]), (42567, [42566]), (42569, [42568]),
     (42571, [42570]), (42573, [42572]), (42575, [42574]), (42577, [42576]), (42579, [42578]),
     (42581, [42580]), (42583, [42582]), (42585, [42584]), (42587, [42586]), (42589, [42588]),
     (42591, [42590]), (42593, [42592]), (42595, [42594]), (42597, [42596]), (42599, [42598]),
     (42601, [42600]), (42603, [42602]), (42605, [42604])]"

definition upper_page_666 :: "(codepoint \<times> codepoint list) list" where
  "upper_page_666 = [
     (42625, [42624]), (42627, [42626]), (42629, [42628]), (42631, [42630]), (42633, [42632]),
     (42635, [42634]), (42637, [42636]), (42639, [42638]), (42641, [42640]), (42643, [42642]),
     (42645, [42644]), (42647, [42646]), (42649, [42648]), (42651, [42650])]"

definition upper_page_668 :: "(codepoint \<times> codepoint list) list" where
  "upper_page_668 = [
     (42787, [42786]), (42789, [42788]), (42791, [42790]), (42793, [42792]), (42795, [42794]),
     (42797, [42796]), (42799, [42798]), (42803, [42802]), (42805, [42804]), (42807, [42806]),
     (42809, [42808]), (42811, [42810]), (42813, [42812]), (42815, [42814])]"

definition upper_page_669 :: "(codepoint \<times> codepoint list) list" where
  "upper_page_669 = [
     (42817, [42816]), (42819, [42818]), (42821, [42820]), (42823, [42822]), (42825, [42824]),
     (42827, [42826]), (42829, [42828]), (42831, [42830]), (42833, [42832]), (42835, [42834]),
     (42837, [42836]), (42839, [42838]), (42841, [42840]), (42843, [42842]), (42845, [42844]),
     (42847, [42846]), (42849, [42848]), (42851, [42850]), (42853, [42852]), (42855, [42854]),
     (42857, [42856]), (42859, [42858]), (42861, [42860]), (42863, [42862]), (42874, [42873]),
     (42876, [42875]), (42879, [42878])]"

definition upper_page_670 :: "(codepoint \<times> codepoint list) list" where
  "upper_page_670 = [
     (42881, [42880]), (42883, [42882]), (42885, [42884]), (42887, [42886]), (42892, [42891]),
     (42897, [42896]), (42899, [42898]), (42900, [42948]), (42903, [42902]), (42905, [42904]),
     (42907, [42906]), (42909, [42908]), (42911, [42910]), (42913, [42912]), (42915, [42914]),
     (42917, [42916]), (42919, [42918]), (42921, [42920]), (42933, [42932]), (42935, [42934]),
     (42937, [42936]), (42939, [42938]), (42941, [42940]), (42943, [42942])]"

definition upper_page_671 :: "(codepoint \<times> codepoint list) list" where
  "upper_page_671 = [
     (42945, [42944]), (42947, [42946]), (42952, [42951]), (42954, [42953]), (42961, [42960]),
     (42967, [42966]), (42969, [42968]), (42998, [42997])]"

definition upper_page_685 :: "(codepoint \<times> codepoint list) list" where
  "upper_page_685 = [
     (43859, [42931]), (43888, [5024]), (43889, [5025]), (43890, [5026]), (43891, [5027]),
     (43892, [5028]), (43893, [5029]), (43894, [5030]), (43895, [5031]), (43896, [5032]),
     (43897, [5033]), (43898, [5034]), (43899, [5035]), (43900, [5036]), (43901, [5037]),
     (43902, [5038]), (43903, [5039])]"

definition upper_page_686 :: "(codepoint \<times> codepoint list) list" where
  "upper_page_686 = [
     (43904, [5040]), (43905, [5041]), (43906, [5042]), (43907, [5043]), (43908, [5044]),
     (43909, [5045]), (43910, [5046]), (43911, [5047]), (43912, [5048]), (43913, [5049]),
     (43914, [5050]), (43915, [5051]), (43916, [5052]), (43917, [5053]), (43918, [5054]),
     (43919, [5055]), (43920, [5056]), (43921, [5057]), (43922, [5058]), (43923, [5059]),
     (43924, [5060]), (43925, [5061]), (43926, [5062]), (43927, [5063]), (43928, [5064]),
     (43929, [5065]), (43930, [5066]), (43931, [5067]), (43932, [5068]), (43933, [5069]),
     (43934, [5070]), (43935, [5071]), (43936, [5072]), (43937, [5073]), (43938, [5074]),
     (43939, [5075]), (43940, [5076]), (43941, [5077]), (43942, [5078]), (43943, [5079]),
     (43944, [5080]), (43945, [5081]), (43946, [5082]), (43947, [5083]), (43948, [5084]),
     (43949, [5085]), (43950, [5086]), (43951, [5087]), (43952, [5088]), (43953, [5089]),
     (43954, [5090]), (43955, [5091]), (43956, [5092]), (43957, [5093]), (43958, [5094]),
     (43959, [5095]), (43960, [5096]), (43961, [5097]), (43962, [5098]), (43963, [5099]),
     (43964, [5100]), (43965, [5101]), (43966, [5102]), (43967, [5103])]"

definition upper_page_1004 :: "(codepoint \<times> codepoint list) list" where
  "upper_page_1004 = [
     (64256, [70, 70]), (64257, [70, 73]), (64258, [70, 76]), (64259, [70, 70, 73]),
     (64260, [70, 70, 76]), (64261, [83, 84]), (64262, [83, 84]), (64275, [1348, 1350]),
     (64276, [1348, 1333]), (64277, [1348, 1339]), (64278, [1358, 1350]), (64279, [1348, 1341])]"

definition upper_page_1021 :: "(codepoint \<times> codepoint list) list" where
  "upper_page_1021 = [
     (65345, [65313]), (65346, [65314]), (65347, [65315]), (65348, [65316]), (65349, [65317]),
     (65350, [65318]), (65351, [65319]), (65352, [65320]), (65353, [65321]), (65354, [65322]),
     (65355, [65323]), (65356, [65324]), (65357, [65325]), (65358, [65326]), (65359, [65327]),
     (65360, [65328]), (65361, [65329]), (65362, [65330]), (65363, [65331]), (65364, [65332]),
     (65365, [65333]), (65366, [65334]), (65367, [65335]), (65368, [65336]), (65369, [65337]),
     (65370, [65338])]"

definition upper_page_1040 :: "(codepoint \<times> codepoint list) list" where
  "upper_page_1040 = [
     (66600, [66560]), (66601, [66561]), (66602, [66562]), (66603, [66563]), (66604, [66564]),
     (66605, [66565]), (66606, [66566]), (66607, [66567]), (66608, [66568]), (66609, [66569]),
     (66610, [66570]), (66611, [66571]), (66612, [66572]), (66613, [66573]), (66614, [66574]),
     (66615, [66575]), (66616, [66576]), (66617, [66577]), (66618, [66578]), (66619, [66579]),
     (66620, [66580]), (66621, [66581]), (66622, [66582]), (66623, [66583])]"

definition upper_page_1041 :: "(codepoint \<times> codepoint list) list" where
  "upper_page_1041 = [
     (66624, [66584]), (66625, [66585]), (66626, [66586]), (66627, [66587]), (66628, [66588]),
     (66629, [66589]), (66630, [66590]), (66631, [66591]), (66632, [66592]), (66633, [66593]),
     (66634, [66594]), (66635, [66595]), (66636, [66596]), (66637, [66597]), (66638, [66598]),
     (66639, [66599])]"

definition upper_page_1043 :: "(codepoint \<times> codepoint list) list" where
  "upper_page_1043 = [
     (66776, [66736]), (66777, [66737]), (66778, [66738]), (66779, [66739]), (66780, [66740]),
     (66781, [66741]), (66782, [66742]), (66783, [66743]), (66784, [66744]), (66785, [66745]),
     (66786, [66746]), (66787, [66747]), (66788, [66748]), (66789, [66749]), (66790, [66750]),
     (66791, [66751]), (66792, [66752]), (66793, [66753]), (66794, [66754]), (66795, [66755]),
     (66796, [66756]), (66797, [66757]), (66798, [66758]), (66799, [66759]), (66800, [66760]),
     (66801, [66761]), (66802, [66762]), (66803, [66763]), (66804, [66764]), (66805, [66765]),
     (66806, [66766]), (66807, [66767]), (66808, [66768]), (66809, [66769]), (66810, [66770]),
     (66811, [66771])]"

definition upper_page_1046 :: "(codepoint \<times> codepoint list) list" where
  "upper_page_1046 = [
     (66967, [66928]), (66968, [66929]), (66969, [66930]), (66970, [66931]), (66971, [66932]),
     (66972, [66933]), (66973, [66934]), (66974, [66935]), (66975, [66936]), (66976, [66937]),
     (66977, [66938]), (66979, [66940]), (66980, [66941]), (66981, [66942]), (66982, [66943]),
     (66983, [66944]), (66984, [66945]), (66985, [66946]), (66986, [66947]), (66987, [66948]),
     (66988, [66949]), (66989, [66950]), (66990, [66951]), (66991, [66952]), (66992, [66953]),
     (66993, [66954]), (66995, [66956]), (66996, [66957]), (66997, [66958]), (66998, [66959]),
     (66999, [66960]), (67000, [66961]), (67001, [66962]), (67003, [66964]), (67004, [66965])]"

definition upper_page_1075 :: "(codepoint \<times> codepoint list) list" where
  "upper_page_1075 = [
     (68800, [68736]), (68801, [68737]), (68802, [68738]), (68803, [68739]), (68804, [68740]),
     (68805, [68741]), (68806, [68742]), (68807, [68743]), (68808, [68744]), (68809, [68745]),
     (68810, [68746]), (68811, [68747]), (68812, [68748]), (68813, [68749]), (68814, [68750]),
     (68815, [68751]), (68816, [68752]), (68817, [68753]), (68818, [68754]), (68819, [68755]),
     (68820, [68756]), (68821, [68757]), (68822, [68758]), (68823, [68759]), (68824, [68760]),
     (68825, [68761]), (68826, [68762]), (68827, [68763]), (68828, [68764]), (68829, [68765]),
     (68830, [68766]), (68831, [68767]), (68832, [68768]), (68833, [68769]), (68834, [68770]),
     (68835, [68771]), (68836, [68772]), (68837, [68773]), (68838, [68774]), (68839, [68775]),
     (68840, [68776]), (68841, [68777]), (68842, [68778]), (68843, [68779]), (68844, [68780]),
     (68845, [68781]), (68846, [68782]), (68847, [68783]), (68848, [68784]), (68849, [68785]),
     (68850, [68786])]"

definition upper_page_1123 :: "(codepoint \<times> codepoint list) list" where
  "upper_page_1123 = [
     (71872, [71840]), (71873, [71841]), (71874, [71842]), (71875, [71843]), (71876, [71844]),
     (71877, [71845]), (71878, [71846]), (71879, [71847]), (71880, [71848]), (71881, [71849]),
     (71882, [71850]), (71883, [71851]), (71884, [71852]), (71885, [71853]), (71886, [71854]),
     (71887, [71855]), (71888, [71856]), (71889, [71857]), (71890, [71858]), (71891, [71859]),
     (71892, [71860]), (71893, [71861]), (71894, [71862]), (71895, [71863]), (71896, [71864]),
     (71897, [71865]), (71898, [71866]), (71899, [71867]), (71900, [71868]), (71901, [71869]),
     (71902, [71870]), (71903, [71871])]"

definition upper_page_1465 :: "(codepoint \<times> codepoint list) list" where
  "upper_page_1465 = [
     (93792, [93760]), (93793, [93761]), (93794, [93762]), (93795, [93763]), (93796, [93764]),
     (93797, [93765]), (93798, [93766]), (93799, [93767]), (93800, [93768]), (93801, [93769]),
     (93802, [93770]), (93803, [93771]), (93804, [93772]), (93805, [93773]), (93806, [93774]),
     (93807, [93775]), (93808, [93776]), (93809, [93777]), (93810, [93778]), (93811, [93779]),
     (93812, [93780]), (93813, [93781]), (93814, [93782]), (93815, [93783]), (93816, [93784]),
     (93817, [93785]), (93818, [93786]), (93819, [93787]), (93820, [93788]), (93821, [93789]),
     (93822, [93790]), (93823, [93791])]"

definition upper_page_1956 :: "(codepoint \<times> codepoint list) list" where
  "upper_page_1956 = [
     (125218, [125184]), (125219, [125185]), (125220, [125186]), (125221, [125187]),
     (125222, [125188]), (125223, [125189]), (125224, [125190]), (125225, [125191]),
     (125226, [125192]), (125227, [125193]), (125228, [125194]), (125229, [125195]),
     (125230, [125196]), (125231, [125197]), (125232, [125198]), (125233, [125199]),
     (125234, [125200]), (125235, [125201]), (125236, [125202]), (125237, [125203]),
     (125238, [125204]), (125239, [125205]), (125240, [125206]), (125241, [125207]),
     (125242, [125208]), (125243, [125209]), (125244, [125210]), (125245, [125211]),
     (125246, [125212]), (125247, [125213])]"

definition upper_page_1957 :: "(codepoint \<times> codepoint list) list" where
  "upper_page_1957 = [
     (125248, [125214]), (125249, [125215]), (125250, [125216]), (125251, [125217])]"

text \<open>
  The pages are in ascending order of their code points. \<open>upper_page_of c\<close> is the last
  page that starts at or below \<open>c\<close> (the first page for a smaller \<open>c\<close>): the only page
  that can hold an entry for \<open>c\<close>.
\<close>

definition upper_page_of :: "codepoint \<Rightarrow> (codepoint \<times> codepoint list) list" where
  "upper_page_of c =
    (if c < 8000
     then
      (if c < 1152
       then
        (if c < 512
         then
          (if c < 256
           then
            (if c < 128
             then
              upper_page_1
             else
              (if c < 192
               then
                upper_page_2
               else
                upper_page_3))
           else
            (if c < 384
             then
              (if c < 320
               then
                upper_page_4
               else
                upper_page_5)
             else
              (if c < 448
               then
                upper_page_6
               else
                upper_page_7)))
         else
          (if c < 896
           then
            (if c < 640
             then
              (if c < 576
               then
                upper_page_8
               else
                upper_page_9)
             else
              (if c < 832
               then
                upper_page_10
               else
                upper_page_13))
           else
            (if c < 1024
             then
              (if c < 960
               then
                upper_page_14
               else
                upper_page_15)
             else
              (if c < 1088
               then
                upper_page_16
               else
                upper_page_17))))
       else
        (if c < 7296
         then
          (if c < 1344
           then
            (if c < 1216
             then
              upper_page_18
             else
              (if c < 1280
               then
                upper_page_19
               else
                upper_page_20))
           else
            (if c < 4288
             then
              (if c < 1408
               then
                upper_page_21
               else
                upper_page_22)
             else
              (if c < 5056
               then
                upper_page_67
               else
                upper_page_79)))
         else
          (if c < 7744
           then
            (if c < 7552
             then
              (if c < 7488
               then
                upper_page_114
               else
                upper_page_117)
             else
              (if c < 7680
               then
                upper_page_118
               else
                upper_page_120))
           else
            (if c < 7872
             then
              (if c < 7808
               then
                upper_page_121
               else
                upper_page_122)
             else
              (if c < 7936
               then
                upper_page_123
               else
                upper_page_124)))))
     else
      (if c < 42880
       then
        (if c < 11328
         then
          (if c < 8512
           then
            (if c < 8064
             then
              upper_page_125
             else
              (if c < 8128
               then
                upper_page_126
               else
                upper_page_127))
           else
            (if c < 9408
             then
              (if c < 8576
               then
                upper_page_133
               else
                upper_page_134)
             else
              (if c < 11264
               then
                upper_page_147
               else
                upper_page_176)))
         else
          (if c < 42560
           then
            (if c < 11456
             then
              (if c < 11392
               then
                upper_page_177
               else
                upper_page_178)
             else
              (if c < 11520
               then
                upper_page_179
               else
                upper_page_180))
           else
            (if c < 42752
             then
              (if c < 42624
               then
                upper_page_665
               else
                upper_page_666)
             else
              (if c < 42816
               then
                upper_page_668
               else
                upper_page_669))))
       else
        (if c < 66624
         then
          (if c < 43904
           then
            (if c < 42944
             then
              upper_page_670
             else
              (if c < 43840
               then
                upper_page_671
               else
                upper_page_685))
           else
            (if c < 65344
             then
              (if c < 64256
               then
                upper_page_686
               else
                upper_page_1004)
             else
              (if c < 66560
               then
                upper_page_1021
               else
                upper_page_1040)))
         else
          (if c < 71872
           then
            (if c < 66944
             then
              (if c < 66752
               then
                upper_page_1041
               else
                upper_page_1043)
             else
              (if c < 68800
               then
                upper_page_1046
               else
                upper_page_1075))
           else
            (if c < 125184
             then
              (if c < 93760
               then
                upper_page_1123
               else
                upper_page_1465)
             else
              (if c < 125248
               then
                upper_page_1956
               else
                upper_page_1957))))))"
definition upper_lookup :: "codepoint \<Rightarrow> codepoint list option" where
  "upper_lookup c = map_of (upper_page_of c) c"

definition upper_char :: "codepoint \<Rightarrow> pystr" where
  "upper_char c = (case upper_lookup c of None \<Rightarrow> [c] | Some ds \<Rightarrow> ds)"

definition py_upper :: "pystr \<Rightarrow> pystr" where
  "py_upper s = concat (map upper_char s)"

text \<open>A list of entries is stable when no character of its mappings has an entry of its
  own, that is, when every character it produces is its own uppercase form.\<close>

fun fixed_points :: "codepoint list \<Rightarrow> bool" where
  "fixed_points [] = True"
| "fixed_points (d # ds) = (upper_lookup d = None \<and> fixed_points ds)"

fun stable_entries :: "(codepoint \<times> codepoint list) list \<Rightarrow> bool" where
  "stable_entries [] = True"
| "stable_entries ((c, ds) # es) = (fixed_points ds \<and> stable_entries es)"

subsection \<open>\<open>str.replace\<close> and slices\<close>

text \<open>\<open>s.replace(old, new)\<close> for a pattern \<open>old\<close> of one character: every occurrence of
  the character is replaced by the string \<open>new\<close>.\<close>

definition py_replace :: "codepoint \<Rightarrow> pystr \<Rightarrow> pystr \<Rightarrow> pystr" where
  "py_replace old new s = concat (map (\<lambda>c. if c = old then new else [c]) s)"

text \<open>\<open>s[i:j]\<close> for \<open>0 \<le> i\<close> and \<open>0 \<le> j\<close>: both ends are clamped to the length.\<close>

definition py_slice :: "'a list \<Rightarrow> nat \<Rightarrow> nat \<Rightarrow> 'a list" where
  "py_slice s i j = take (j - i) (drop i s)"

text \<open>\<open>range(start, stop, step)\<close> for a positive step.\<close>

definition py_range :: "nat \<Rightarrow> nat \<Rightarrow> nat \<Rightarrow> nat list" where
  "py_range start stop step =
     map (\<lambda>k. start + k * step) [0..<(stop - start + step - 1) div step]"

section \<open>The analyzer\<close>

text \<open>
  \<^verbatim>\<open>
  def clean_sequence(seq):
      seq = seq.upper().replace(" ", "").replace("\n", "")
      return seq[:len(seq) - (len(seq) % 3)]
  \<close>
\<close>

definition clean_sequence :: "pystr \<Rightarrow> pystr" where
  "clean_sequence seq =
     (let seq' = py_replace 10 [] (py_replace 32 [] (py_upper seq))
      in py_slice seq' 0 (length seq' - length seq' mod 3))"

text \<open>
  \<^verbatim>\<open>
  def split_into_codons(seq):
      return [seq[i:i+3] for i in range(0, len(seq), 3)]
  \<close>
\<close>

definition split_into_codons :: "pystr \<Rightarrow> pystr list" where
  "split_into_codons seq = map (\<lambda>i. py_slice seq i (i + 3)) (py_range 0 (length seq) 3)"

text \<open>
  \<^verbatim>\<open>
  AA_ABBREV = {'A': 'Ala', 'R': 'Arg', ..., 'X': '???', '_': 'Stop'}
  AA_FULL = {'A': 'Alanine', 'R': 'Arginine', ..., 'X': 'Unknown', '_': 'Stop'}
  \<close>
\<close>

definition AA_ABBREV :: "pystr \<rightharpoonup> pystr" where
  "AA_ABBREV = map_of [
     (str ''A'', str ''Ala''), (str ''R'', str ''Arg''), (str ''N'', str ''Asn''),
     (str ''D'', str ''Asp''), (str ''C'', str ''Cys''), (str ''Q'', str ''Gln''),
     (str ''E'', str ''Glu''), (str ''G'', str ''Gly''), (str ''H'', str ''His''),
     (str ''I'', str ''Ile''), (str ''L'', str ''Leu''), (str ''K'', str ''Lys''),
     (str ''M'', str ''Met''), (str ''F'', str ''Phe''), (str ''P'', str ''Pro''),
     (str ''S'', str ''Ser''), (str ''T'', str ''Thr''), (str ''W'', str ''Trp''),
     (str ''Y'', str ''Tyr''), (str ''V'', str ''Val''), (str ''X'', str ''???''),
     (str ''_'', str ''Stop'')]"

definition AA_FULL :: "pystr \<rightharpoonup> pystr" where
  "AA_FULL = map_of [
     (str ''A'', str ''Alanine''), (str ''R'', str ''Arginine''), (str ''N'', str ''Asparagine''),
     (str ''D'', str ''Aspartic acid''), (str ''C'', str ''Cysteine''),
     (str ''Q'', str ''Glutamine''), (str ''E'', str ''Glutamic acid''),
     (str ''G'', str ''Glycine''), (str ''H'', str ''Histidine''), (str ''I'', str ''Isoleucine''),
     (str ''L'', str ''Leucine''), (str ''K'', str ''Lysine''), (str ''M'', str ''Methionine''),
     (str ''F'', str ''Phenylalanine''), (str ''P'', str ''Proline''), (str ''S'', str ''Serine''),
     (str ''T'', str ''Threonine''), (str ''W'', str ''Tryptophan''), (str ''Y'', str ''Tyrosine''),
     (str ''V'', str ''Valine''), (str ''X'', str ''Unknown''), (str ''_'', str ''Stop'')]"

text \<open>
  Modelled from the spec: the module \<open>codon_table\<close> that defines \<open>CODON_TABLE\<close> is not among
  the sources. The spec describes it as a fixed mapping with 64 entries, one for every
  triplet over A, C, G and T, each to a single-letter amino-acid code or to the stop marker,
  with TAA, TAG and TGA the stop codons. The entries are those of the standard genetic
  code; the stop marker is the character \<open>_\<close>, the key that \<open>AA_ABBREV\<close> and \<open>AA_FULL\<close> name
  \<open>Stop\<close>.
\<close>

definition CODON_TABLE :: "pystr \<rightharpoonup> pystr" where
  "CODON_TABLE = map_of [
     (str ''TTT'', str ''F''), (str ''TTC'', str ''F''), (str ''TTA'', str ''L''),
     (str ''TTG'', str ''L''), (str ''CTT'', str ''L''), (str ''CTC'', str ''L''),
     (str ''CTA'', str ''L''), (str ''CTG'', str ''L''), (str ''ATT'', str ''I''),
     (str ''ATC'', str ''I''), (str ''ATA'', str ''I''), (str ''ATG'', str ''M''),
     (str ''GTT'', str ''V''), (str ''GTC'', str ''V''), (str ''GTA'', str ''V''),
     (str ''GTG'', str ''V''), (str ''TCT'', str ''S''), (str ''TCC'', str ''S''),
     (str ''TCA'', str ''S''), (str ''TCG'', str ''S''), (str ''CCT'', str ''P''),
     (str ''CCC'', str ''P''), (str ''CCA'', str ''P''), (str ''CCG'', str ''P''),
     (str ''ACT'', str ''T''), (str ''ACC'', str ''T''), (str ''ACA'', str ''T''),
     (str ''ACG'', str ''T''), (str ''GCT'', str ''A''), (str ''GCC'', str ''A''),
     (str ''GCA'', str ''A''), (str ''GCG'', str ''A''), (str ''TAT'', str ''Y''),
     (str ''TAC'', str ''Y''), (str ''TAA'', str ''_''), (str ''TAG'', str ''_''),
     (str ''CAT'', str ''H''), (str ''CAC'', str ''H''), (str ''CAA'', str ''Q''),
     (str ''CAG'', str ''Q''), (str ''AAT'', str ''N''), (str ''AAC'', str ''N''),
     (str ''AAA'', str ''K''), (str ''AAG'', str ''K''), (str ''GAT'', str ''D''),
     (str ''GAC'', str ''D''), (str ''GAA'', str ''E''), (str ''GAG'', str ''E''),
     (str ''TGT'', str ''C''), (str ''TGC'', str ''C''), (str ''TGA'', str ''_''),
     (str ''TGG'', str ''W''), (str ''CGT'', str ''R''), (str ''CGC'', str ''R''),
     (str ''CGA'', str ''R''), (str ''CGG'', str ''R''), (str ''AGT'', str ''S''),
     (str ''AGC'', str ''S''), (str ''AGA'', str ''R''), (str ''AGG'', str ''R''),
     (str ''GGT'', str ''G''), (str ''GGC'', str ''G''), (str ''GGA'', str ''G''),
     (str ''GGG'', str ''G'')]"

text \<open>\<open>d.get(key, default)\<close> on a dictionary.\<close>

definition dict_get :: "('k \<rightharpoonup> 'v) \<Rightarrow> 'k \<Rightarrow> 'v \<Rightarrow> 'v" where
  "dict_get d k dflt = (case d k of None \<Rightarrow> dflt | Some v \<Rightarrow> v)"

text \<open>
  \<^verbatim>\<open>
  def translate_codons(codons):
      return ''.join([CODON_TABLE.get(codon, 'X') for codon in codons])
  \<close>
  The function reads the global table; \<open>translate_codons_with\<close> takes the table as an
  argument, and \<open>translate_codons\<close> is its instance at \<open>CODON_TABLE\<close>.
\<close>

definition translate_codons_with :: "(pystr \<rightharpoonup> pystr) \<Rightarrow> pystr list \<Rightarrow> pystr" where
  "translate_codons_with table codons =
     concat (map (\<lambda>codon. dict_get table codon (str ''X'')) codons)"

definition translate_codons :: "pystr list \<Rightarrow> pystr" where
  "translate_codons codons = translate_codons_with CODON_TABLE codons"

text \<open>
  A \<open>defaultdict(int)\<close> is modelled by its items in insertion order. Reading a missing key
  with \<open>d[k]\<close> calls the factory \<open>int()\<close>, stores the resulting 0 under the key and returns
  it, so reading returns the value together with the dictionary after the read.
\<close>

type_synonym 'k defaultdict = "('k \<times> int) list"

definition dd_getitem :: "'k defaultdict \<Rightarrow> 'k \<Rightarrow> int \<times> 'k defaultdict" where
  "dd_getitem d k =
     (case map_of d k of Some v \<Rightarrow> (v, d) | None \<Rightarrow> (0, AList.update k 0 d))"

definition dd_setitem :: "'k defaultdict \<Rightarrow> 'k \<Rightarrow> int \<Rightarrow> 'k defaultdict" where
  "dd_setitem d k v = AList.update k v d"

text \<open>
  \<^verbatim>\<open>
  def count_codon_usage(codons):
      codon_count = defaultdict(int)
      for codon in codons:
          codon_count[codon] += 1
      return codon_count
  \<close>
  The body of the loop reads \<open>codon_count[codon]\<close> and stores the value plus one.
\<close>

definition count_step :: "pystr defaultdict \<Rightarrow> pystr \<Rightarrow> pystr defaultdict" where
  "count_step codon_count codon =
     (case dd_getitem codon_count codon of (v, d) \<Rightarrow> dd_setitem d codon (v + 1))"

definition count_codon_usage :: "pystr list \<Rightarrow> pystr defaultdict" where
  "count_codon_usage codons = foldl count_step [] codons"

text \<open>
  \<^verbatim>\<open>
  def calculate_gc_content(seq):
      g = seq.count('G')
      c = seq.count('C')
      total = len(seq)
      if total == 0:
          return 0
      return round(((g+c)/total)*100, 2)
  \<close>
  \<open>seq.count\<close> of a pattern of one character counts the occurrences of that character;
  G is the code point 71 and C the code point 67. The division and the multiplication are
  operations on floats: each returns its exact result rounded to a float. This rounding,
  \<open>fl\<close>, and the function \<open>round(x, 2)\<close>, \<open>round2\<close>, are parameters of the model. A
  number is modelled by its value, so the integer 0 of the guard and the float 0.0 are the
  same result, as they are for Python's \<open>==\<close>.
\<close>

definition calculate_gc_content :: "(real \<Rightarrow> real) \<Rightarrow> (real \<Rightarrow> real) \<Rightarrow> pystr \<Rightarrow> real" where
  "calculate_gc_content fl round2 seq =
     (let g = count_list seq 71;
          c = count_list seq 67;
          total = length seq
      in if total = 0 then 0
         else round2 (fl (fl (real (g + c) / real total) * 100)))"

subsection \<open>The uppercase mapping is stable\<close>

text \<open>No character produced by an uppercase mapping has a mapping of its own; page by page.\<close>

lemma upper_page_1_stable: "stable_entries upper_page_1"
  by (simp add: upper_lookup_def upper_page_of_def upper_page_1_def)

lemma upper_page_2_stable: "stable_entries upper_page_2"
  by (simp add: upper_lookup_def upper_page_of_def upper_page_2_def upper_page_14_def)

lemma upper_page_3_stable: "stable_entries upper_page_3"
  by (simp add: upper_lookup_def upper_page_of_def upper_page_1_def upper_page_3_def upper_page_5_def)

lemma upper_page_4_stable: "stable_entries upper_page_4"
  by (simp add: upper_lookup_def upper_page_of_def upper_page_1_def upper_page_4_def)

lemma upper_page_5_stable: "stable_entries upper_page_5"
  by (simp add: upper_lookup_def upper_page_of_def upper_page_1_def upper_page_4_def upper_page_5_def upper_page_10_def)

lemma upper_page_6_stable: "stable_entries upper_page_6"
  by (simp add: upper_lookup_def upper_page_of_def upper_page_6_def upper_page_7_def upper_page_8_def upper_page_9_def)

lemma upper_page_7_stable: "stable_entries upper_page_7"
  by (simp add: upper_lookup_def upper_page_of_def upper_page_1_def upper_page_6_def upper_page_7_def upper_page_10_def)

lemma upper_page_8_stable: "stable_entries upper_page_8"
  by (simp add: upper_lookup_def upper_page_of_def upper_page_8_def upper_page_177_def)

lemma upper_page_9_stable: "stable_entries upper_page_9"
  by (simp add: upper_lookup_def upper_page_of_def upper_page_6_def upper_page_9_def upper_page_177_def upper_page_670_def)

lemma upper_page_10_stable: "stable_entries upper_page_10"
  by (simp add: upper_lookup_def upper_page_of_def upper_page_6_def upper_page_9_def upper_page_10_def upper_page_670_def upper_page_671_def)

lemma upper_page_13_stable: "stable_entries upper_page_13"
  by (simp add: upper_lookup_def upper_page_of_def upper_page_13_def upper_page_14_def upper_page_15_def)

lemma upper_page_14_stable: "stable_entries upper_page_14"
  by (simp add: upper_lookup_def upper_page_of_def upper_page_10_def upper_page_14_def)

lemma upper_page_15_stable: "stable_entries upper_page_15"
  by (simp add: upper_lookup_def upper_page_of_def upper_page_13_def upper_page_14_def upper_page_15_def)

lemma upper_page_16_stable: "stable_entries upper_page_16"
  by (simp add: upper_lookup_def upper_page_of_def upper_page_16_def)

lemma upper_page_17_stable: "stable_entries upper_page_17"
  by (simp add: upper_lookup_def upper_page_of_def upper_page_16_def upper_page_17_def)

lemma upper_page_18_stable: "stable_entries upper_page_18"
  by (simp add: upper_lookup_def upper_page_of_def upper_page_18_def)

lemma upper_page_19_stable: "stable_entries upper_page_19"
  by (simp add: upper_lookup_def upper_page_of_def upper_page_19_def)

lemma upper_page_20_stable: "stable_entries upper_page_20"
  by (simp add: upper_lookup_def upper_page_of_def upper_page_20_def)

lemma upper_page_21_stable: "stable_entries upper_page_21"
  by (simp add: upper_lookup_def upper_page_of_def upper_page_20_def upper_page_21_def)

lemma upper_page_22_stable: "stable_entries upper_page_22"
  by (simp add: upper_lookup_def upper_page_of_def upper_page_20_def upper_page_21_def upper_page_22_def)

lemma upper_page_67_stable: "stable_entries upper_page_67"
  by (simp add: upper_lookup_def upper_page_of_def upper_page_67_def upper_page_114_def)

lemma upper_page_79_stable: "stable_entries upper_page_79"
  by (simp add: upper_lookup_def upper_page_of_def upper_page_79_def)

lemma upper_page_114_stable: "stable_entries upper_page_114"
  by (simp add: upper_lookup_def upper_page_of_def upper_page_16_def upper_page_17_def upper_page_114_def upper_page_665_def)

lemma upper_page_117_stable: "stable_entries upper_page_117"
  by (simp add: upper_lookup_def upper_page_of_def upper_page_117_def upper_page_177_def upper_page_669_def)

lemma upper_page_118_stable: "stable_entries upper_page_118"
  by (simp add: upper_lookup_def upper_page_of_def upper_page_118_def upper_page_671_def)

lemma upper_page_120_stable: "stable_entries upper_page_120"
  by (simp add: upper_lookup_def upper_page_of_def upper_page_120_def)

lemma upper_page_121_stable: "stable_entries upper_page_121"
  by (simp add: upper_lookup_def upper_page_of_def upper_page_121_def)

lemma upper_page_122_stable: "stable_entries upper_page_122"
  by (simp add: upper_lookup_def upper_page_of_def upper_page_1_def upper_page_10_def upper_page_121_def upper_page_122_def)

lemma upper_page_123_stable: "stable_entries upper_page_123"
  by (simp add: upper_lookup_def upper_page_of_def upper_page_123_def)

lemma upper_page_124_stable: "stable_entries upper_page_124"
  by (simp add: upper_lookup_def upper_page_of_def upper_page_124_def)

lemma upper_page_125_stable: "stable_entries upper_page_125"
  by (simp add: upper_lookup_def upper_page_of_def upper_page_10_def upper_page_13_def upper_page_14_def upper_page_125_def upper_page_126_def upper_page_127_def)

lemma upper_page_126_stable: "stable_entries upper_page_126"
  by (simp add: upper_lookup_def upper_page_of_def upper_page_13_def upper_page_14_def upper_page_124_def upper_page_125_def upper_page_126_def)

lemma upper_page_127_stable: "stable_entries upper_page_127"
  by (simp add: upper_lookup_def upper_page_of_def upper_page_10_def upper_page_13_def upper_page_14_def upper_page_127_def)

lemma upper_page_133_stable: "stable_entries upper_page_133"
  by (simp add: upper_lookup_def upper_page_of_def upper_page_127_def upper_page_133_def)

lemma upper_page_134_stable: "stable_entries upper_page_134"
  by (simp add: upper_lookup_def upper_page_of_def upper_page_134_def)

lemma upper_page_147_stable: "stable_entries upper_page_147"
  by (simp add: upper_lookup_def upper_page_of_def upper_page_134_def upper_page_147_def)

lemma upper_page_176_stable: "stable_entries upper_page_176"
  by (simp add: upper_lookup_def upper_page_of_def upper_page_176_def)

lemma upper_page_177_stable: "stable_entries upper_page_177"
  by (simp add: upper_lookup_def upper_page_of_def upper_page_8_def upper_page_176_def upper_page_177_def)

lemma upper_page_178_stable: "stable_entries upper_page_178"
  by (simp add: upper_lookup_def upper_page_of_def upper_page_178_def)

lemma upper_page_179_stable: "stable_entries upper_page_179"
  by (simp add: upper_lookup_def upper_page_of_def upper_page_179_def)

lemma upper_page_180_stable: "stable_entries upper_page_180"
  by (simp add: upper_lookup_def upper_page_of_def upper_page_22_def upper_page_67_def upper_page_180_def)

lemma upper_page_665_stable: "stable_entries upper_page_665"
  by (simp add: upper_lookup_def upper_page_of_def upper_page_665_def)

lemma upper_page_666_stable: "stable_entries upper_page_666"
  by (simp add: upper_lookup_def upper_page_of_def upper_page_666_def)

lemma upper_page_668_stable: "stable_entries upper_page_668"
  by (simp add: upper_lookup_def upper_page_of_def upper_page_668_def)

lemma upper_page_669_stable: "stable_entries upper_page_669"
  by (simp add: upper_lookup_def upper_page_of_def upper_page_669_def)

lemma upper_page_670_stable: "stable_entries upper_page_670"
  by (simp add: upper_lookup_def upper_page_of_def upper_page_670_def upper_page_671_def)

lemma upper_page_671_stable: "stable_entries upper_page_671"
  by (simp add: upper_lookup_def upper_page_of_def upper_page_671_def)

lemma upper_page_685_stable: "stable_entries upper_page_685"
  by (simp add: upper_lookup_def upper_page_of_def upper_page_67_def upper_page_670_def upper_page_685_def)

lemma upper_page_686_stable: "stable_entries upper_page_686"
  by (simp add: upper_lookup_def upper_page_of_def upper_page_67_def upper_page_79_def upper_page_686_def)

lemma upper_page_1004_stable: "stable_entries upper_page_1004"
  by (simp add: upper_lookup_def upper_page_of_def upper_page_1_def upper_page_20_def upper_page_21_def upper_page_1004_def)

lemma upper_page_1021_stable: "stable_entries upper_page_1021"
  by (simp add: upper_lookup_def upper_page_of_def upper_page_1004_def upper_page_1021_def)

lemma upper_page_1040_stable: "stable_entries upper_page_1040"
  by (simp add: upper_lookup_def upper_page_of_def upper_page_1040_def)

lemma upper_page_1041_stable: "stable_entries upper_page_1041"
  by (simp add: upper_lookup_def upper_page_of_def upper_page_1040_def upper_page_1041_def)

lemma upper_page_1043_stable: "stable_entries upper_page_1043"
  by (simp add: upper_lookup_def upper_page_of_def upper_page_1041_def upper_page_1043_def)

lemma upper_page_1046_stable: "stable_entries upper_page_1046"
  by (simp add: upper_lookup_def upper_page_of_def upper_page_1043_def upper_page_1046_def)

lemma upper_page_1075_stable: "stable_entries upper_page_1075"
  by (simp add: upper_lookup_def upper_page_of_def upper_page_1046_def upper_page_1075_def)

lemma upper_page_1123_stable: "stable_entries upper_page_1123"
  by (simp add: upper_lookup_def upper_page_of_def upper_page_1075_def upper_page_1123_def)

lemma upper_page_1465_stable: "stable_entries upper_page_1465"
  by (simp add: upper_lookup_def upper_page_of_def upper_page_1465_def)

lemma upper_page_1956_stable: "stable_entries upper_page_1956"
  by (simp add: upper_lookup_def upper_page_of_def upper_page_1956_def)

lemma upper_page_1957_stable: "stable_entries upper_page_1957"
  by (simp add: upper_lookup_def upper_page_of_def upper_page_1956_def upper_page_1957_def)

lemmas upper_pages_stable =
  upper_page_1_stable upper_page_2_stable upper_page_3_stable upper_page_4_stable
  upper_page_5_stable upper_page_6_stable upper_page_7_stable upper_page_8_stable
  upper_page_9_stable upper_page_10_stable upper_page_13_stable upper_page_14_stable
  upper_page_15_stable upper_page_16_stable upper_page_17_stable upper_page_18_stable
  upper_page_19_stable upper_page_20_stable upper_page_21_stable upper_page_22_stable
  upper_page_67_stable upper_page_79_stable upper_page_114_stable upper_page_117_stable
  upper_page_118_stable upper_page_120_stable upper_page_121_stable upper_page_122_stable
  upper_page_123_stable upper_page_124_stable upper_page_125_stable upper_page_126_stable
  upper_page_127_stable upper_page_133_stable upper_page_134_stable upper_page_147_stable
  upper_page_176_stable upper_page_177_stable upper_page_178_stable upper_page_179_stable
  upper_page_180_stable upper_page_665_stable upper_page_666_stable upper_page_668_stable
  upper_page_669_stable upper_page_670_stable upper_page_671_stable upper_page_685_stable
  upper_page_686_stable upper_page_1004_stable upper_page_1021_stable upper_page_1040_stable
  upper_page_1041_stable upper_page_1043_stable upper_page_1046_stable upper_page_1075_stable
  upper_page_1123_stable upper_page_1465_stable upper_page_1956_stable upper_page_1957_stable

lemma upper_page_of_stable: "stable_entries (upper_page_of c)"
  by (simp add: upper_page_of_def upper_pages_stable)
lemma fixed_points_mem: "fixed_points ds \<Longrightarrow> d \<in> set ds \<Longrightarrow> upper_lookup d = None"
  by (induction ds) auto

lemma stable_entries_mem: "stable_entries es \<Longrightarrow> (c, ds) \<in> set es \<Longrightarrow> fixed_points ds"
  by (induction es rule: stable_entries.induct) auto

lemma upper_lookup_stable:
  assumes "upper_lookup c = Some ds" and "d \<in> set ds"
  shows "upper_lookup d = None"
proof -
  from assms(1) have "(c, ds) \<in> set (upper_page_of c)"
    unfolding upper_lookup_def by (rule map_of_SomeD)
  with upper_page_of_stable [of c] have "fixed_points ds"
    by (rule stable_entries_mem)
  then show ?thesis using assms(2) by (rule fixed_points_mem)
qed

lemma upper_char_fixed: "d \<in> set (upper_char c) \<Longrightarrow> upper_char d = [d]"
  by (auto simp: upper_char_def split: option.splits dest: upper_lookup_stable)

lemma py_upper_fixed: "\<forall>d\<in>set s. upper_char d = [d] \<Longrightarrow> py_upper s = s"
  by (induction s) (simp_all add: py_upper_def)

lemma set_py_upper: "set (py_upper s) = (\<Union>c\<in>set s. set (upper_char c))"
  by (simp add: py_upper_def)

lemma py_upper_length_le:
  "\<forall>c\<in>set s. length (upper_char c) = 1 \<Longrightarrow> length (py_upper s) = length s"
  by (induction s) (simp_all add: py_upper_def)

lemma upper_page_of_ascii: "c < 128 \<Longrightarrow> upper_page_of c = upper_page_1"
  by (simp add: upper_page_of_def)

lemma upper_char_ascii:
  "c < 128 \<Longrightarrow> upper_char c = (if 97 \<le> c \<and> c \<le> 122 then [c - 32] else [c])"
  by (auto simp: upper_char_def upper_lookup_def upper_page_of_ascii upper_page_1_def) arith

lemma upper_char_ascii_length: "c < 128 \<Longrightarrow> length (upper_char c) = 1"
  by (simp add: upper_char_ascii)

lemma py_replace_empty: "py_replace old [] s = filter (\<lambda>c. c \<noteq> old) s"
  by (induction s) (simp_all add: py_replace_def)

lemma clean_sequence_filter:
  "clean_sequence s =
     take (length [c\<leftarrow>py_upper s. c \<noteq> 32 \<and> c \<noteq> 10] - length [c\<leftarrow>py_upper s. c \<noteq> 32 \<and> c \<noteq> 10] mod 3)
       [c\<leftarrow>py_upper s. c \<noteq> 32 \<and> c \<noteq> 10]"
  by (simp add: clean_sequence_def Let_def py_replace_empty py_slice_def)

lemma trim_length: "length (take (length u - length u mod 3) u) = length u - length u mod 3"
  by simp

lemma trim_mod3: "(n - n mod 3) mod 3 = (0::nat)"
  by (simp add: minus_mod_eq_mult_div)

lemma clean_sequence_mod3: "length (clean_sequence s) mod 3 = 0"
  by (simp only: clean_sequence_filter trim_length trim_mod3)

lemma clean_sequence_le_upper: "length (clean_sequence s) \<le> length (py_upper s)"
proof -
  have "length (clean_sequence s) \<le> length [c\<leftarrow>py_upper s. c \<noteq> 32 \<and> c \<noteq> 10]"
    by (simp add: clean_sequence_filter)
  also have "\<dots> \<le> length (py_upper s)"
    by (rule length_filter_le)
  finally show ?thesis .
qed

lemma clean_sequence_set:
  "set (clean_sequence s) \<subseteq> {c \<in> set (py_upper s). c \<noteq> 32 \<and> c \<noteq> 10}"
proof -
  have "set (clean_sequence s) \<subseteq> set [c\<leftarrow>py_upper s. c \<noteq> 32 \<and> c \<noteq> 10]"
    by (simp only: clean_sequence_filter) (rule set_take_subset)
  then show ?thesis by auto
qed

lemma clean_sequence_fixed:
  assumes "\<forall>d\<in>set t. upper_char d = [d]" and "32 \<notin> set t" and "10 \<notin> set t"
    and "length t mod 3 = 0"
  shows "clean_sequence t = t"
proof -
  have u: "py_upper t = t" using assms(1) by (rule py_upper_fixed)
  have f: "[c\<leftarrow>t. c \<noteq> 32 \<and> c \<noteq> 10] = t"
    using assms(2,3) by (auto simp: filter_id_conv)
  show ?thesis
    by (simp add: clean_sequence_filter u f assms(4))
qed

lemma split_into_codons_chunks:
  "split_into_codons s = map (\<lambda>k. take 3 (drop (3 * k) s)) [0..<(length s + 2) div 3]"
  by (simp add: split_into_codons_def py_range_def py_slice_def mult.commute)

lemma concat_chunks: "concat (map (\<lambda>k. take 3 (drop (3 * k) s)) [0..<m]) = take (3 * m) s"
proof (induction m)
  case 0
  show ?case by simp
next
  case (Suc m)
  have "take (3 * Suc m) s = take (3 * m + 3) s" by (simp add: add.commute)
  also have "\<dots> = take (3 * m) s @ take 3 (drop (3 * m) s)" by (rule take_add)
  finally show ?case using Suc by simp
qed

lemma concat_singletons:
  "\<forall>x\<in>set xs. length (f x) = 1 \<Longrightarrow> concat (map f xs) = map (\<lambda>x. hd (f x)) xs"
proof (induction xs)
  case Nil
  show ?case by simp
next
  case (Cons x xs)
  then have "length (f x) = 1" by simp
  then have "f x = [hd (f x)]" by (cases "f x") simp_all
  with Cons show ?case by simp
qed

lemma dict_get_single:
  "\<forall>c v. table c = Some v \<longrightarrow> length v = 1 \<Longrightarrow> length (dict_get table codon (str ''X'')) = 1"
  by (simp add: dict_get_def str_def split: option.splits)

lemma CODON_TABLE_single: "CODON_TABLE c = Some v \<Longrightarrow> length v = 1"
  unfolding CODON_TABLE_def by (drule map_of_SomeD) (auto simp: str_def)

lemma sum_snd_update:
  "sum_list (map snd (AList.update k v d)) =
     (case map_of d k of None \<Rightarrow> sum_list (map snd d) + v
      | Some w \<Rightarrow> sum_list (map snd d) - w + (v::int))"
  by (induction d) (auto split: option.splits)

lemma count_step_map_of:
  "map_of (count_step d k) = (map_of d)(k \<mapsto> (case map_of d k of None \<Rightarrow> 1 | Some v \<Rightarrow> v + 1))"
  by (simp add: count_step_def dd_getitem_def dd_setitem_def update_conv' split: option.splits)

lemma count_step_distinct: "distinct (map fst d) \<Longrightarrow> distinct (map fst (count_step d k))"
  by (simp add: count_step_def dd_getitem_def dd_setitem_def distinct_update split: option.splits)

lemma count_step_sum: "sum_list (map snd (count_step d k)) = sum_list (map snd d) + 1"
  by (simp add: count_step_def dd_getitem_def dd_setitem_def sum_snd_update update_conv'
      split: option.splits)

lemma foldl_count_step_map_of:
  "map_of (foldl count_step d C) k =
     (if k \<in> set C
      then Some ((case map_of d k of None \<Rightarrow> 0 | Some v \<Rightarrow> v) + int (count_list C k))
      else map_of d k)"
proof (induction C arbitrary: d)
  case Nil
  show ?case by simp
next
  case (Cons x xs)
  show ?case
    by (simp add: Cons.IH count_step_map_of split: option.splits)
qed

lemma foldl_count_step_distinct:
  "distinct (map fst d) \<Longrightarrow> distinct (map fst (foldl count_step d C))"
  by (induction C arbitrary: d) (simp_all add: count_step_distinct)

lemma foldl_count_step_sum:
  "sum_list (map snd (foldl count_step d C)) = sum_list (map snd d) + int (length C)"
  by (induction C arbitrary: d) (simp_all add: count_step_sum)

lemma count_codon_usage_map_of:
  "map_of (count_codon_usage C) k =
     (if k \<in> set C then Some (int (count_list C k)) else None)"
  by (simp add: count_codon_usage_def foldl_count_step_map_of)

lemma count_codon_usage_distinct: "distinct (map fst (count_codon_usage C))"
  by (simp add: count_codon_usage_def foldl_count_step_distinct)

lemma count_list_two_le:
  "a \<noteq> b \<Longrightarrow> count_list xs a + count_list xs b \<le> length xs"
  by (induction xs) auto

lemma translate_codons_with_snoc:
  "translate_codons_with table (C @ [codon]) =
     translate_codons_with table C @ (case table codon of None \<Rightarrow> [88] | Some v \<Rightarrow> v)"
  by (simp add: translate_codons_with_def dict_get_def str_def split: option.splits)

lemma translate_codons_with_all_unknown:
  "\<forall>c\<in>set C. table c = None \<Longrightarrow> translate_codons_with table C = replicate (length C) 88"
  by (induction C) (simp_all add: translate_codons_with_def dict_get_def str_def)

lemma translate_codons_with_length:
  assumes "\<forall>c v. table c = Some v \<longrightarrow> length v = 1"
  shows "length (translate_codons_with table C) = length C"
proof -
  have "\<forall>c\<in>set C. length (dict_get table c (str ''X'')) = 1"
    using assms by (simp add: dict_get_single)
  then have "translate_codons_with table C = map (\<lambda>c. hd (dict_get table c (str ''X''))) C"
    unfolding translate_codons_with_def by (rule concat_singletons)
  then show ?thesis by simp
qed

section \<open>Normalisation\<close>

text \<open>
  C1. For every input string, the normalised sequence has a length divisible by 3 and is
  the uppercased input without spaces and newlines, cut at the end by at most two
  characters. It is no longer than the input whenever every character of the input
  uppercases to a single character, which holds for every ASCII input; cleaning
  \<open>ATGCA\<close> yields \<open>ATG\<close>.
\<close>

theorem clean_sequence_length:
  "length (clean_sequence S) mod 3 = 0
   \<and> clean_sequence S = take (length (clean_sequence S)) [c\<leftarrow>py_upper S. c \<noteq> 32 \<and> c \<noteq> 10]
   \<and> length [c\<leftarrow>py_upper S. c \<noteq> 32 \<and> c \<noteq> 10] - length (clean_sequence S) < 3
   \<and> ((\<forall>c\<in>set S. length (upper_char c) = 1) \<longrightarrow> length (clean_sequence S) \<le> length S)
   \<and> ((\<forall>c\<in>set S. c < 128) \<longrightarrow> length (clean_sequence S) \<le> length S)
   \<and> clean_sequence (str ''ATGCA'') = str ''ATG''"
proof -
  let ?u = "[c\<leftarrow>py_upper S. c \<noteq> 32 \<and> c \<noteq> 10]"
  have len: "length (clean_sequence S) = length ?u - length ?u mod 3"
    by (simp only: clean_sequence_filter trim_length)
  have a: "clean_sequence S = take (length (clean_sequence S)) ?u"
    by (simp only: len) (rule clean_sequence_filter)
  have b: "length ?u - length (clean_sequence S) < 3"
    unfolding len by arith
  have c: "length (clean_sequence S) \<le> length S" if "\<forall>c\<in>set S. length (upper_char c) = 1"
    using clean_sequence_le_upper [of S] py_upper_length_le [OF that] by simp
  have d: "length (clean_sequence S) \<le> length S" if "\<forall>c\<in>set S. c < 128"
    using that by (auto intro!: c simp: upper_char_ascii_length)
  have e: "clean_sequence (str ''ATGCA'') = str ''ATG''"
    by (simp add: clean_sequence_filter py_upper_def upper_char_ascii str_def)
  from clean_sequence_mod3 a b c d e show ?thesis by blast
qed

theorem clean_sequence_length_witness:
  "set (str ''atg ca'') \<subseteq> {c. c < 128}
   \<and> length (clean_sequence (str ''atg ca'')) \<le> length (str ''atg ca'')
   \<and> length (clean_sequence (str ''atg ca'')) mod 3 = 0"
proof -
  have h: "\<forall>c\<in>set (str ''atg ca''). c < 128"
    by (simp add: str_def)
  from h clean_sequence_length [of "str ''atg ca''"] show ?thesis by blast
qed

theorem clean_sequence_length_counterexample:
  "\<not> (length (clean_sequence [223, 223, 223]) mod 3 = 0
      \<and> length (clean_sequence [223, 223, 223]) \<le> length [223, 223, 223 :: codepoint])"
proof -
  have "upper_char 223 = [83, 83]"
    by (simp add: upper_char_def upper_lookup_def upper_page_of_def upper_page_3_def)
  then have "clean_sequence [223, 223, 223] = [83, 83, 83, 83, 83, 83]"
    by (simp add: clean_sequence_filter py_upper_def)
  then show ?thesis by simp
qed

text \<open>
  C6. Normalisation is idempotent: cleaning a cleaned sequence changes nothing.
\<close>

theorem clean_sequence_idempotent: "clean_sequence (clean_sequence S) = clean_sequence S"
proof (rule clean_sequence_fixed)
  show "\<forall>d\<in>set (clean_sequence S). upper_char d = [d]"
  proof
    fix d assume "d \<in> set (clean_sequence S)"
    with clean_sequence_set [of S] have "d \<in> set (py_upper S)" by auto
    then obtain c where "d \<in> set (upper_char c)" by (auto simp: set_py_upper)
    then show "upper_char d = [d]" by (rule upper_char_fixed)
  qed
  show "32 \<notin> set (clean_sequence S)" using clean_sequence_set [of S] by auto
  show "10 \<notin> set (clean_sequence S)" using clean_sequence_set [of S] by auto
  show "length (clean_sequence S) mod 3 = 0" by (rule clean_sequence_mod3)
qed

text \<open>
  C7. Cleaning uppercases the input and removes exactly the space (code point 32) and the
  newline (code point 10): the result is the uppercased input without these two
  characters, cut to a multiple of three. A tab (9) or a carriage return (13) is its own
  uppercase form and stays in the sequence, and so does any letter that is not a base,
  such as N or Z; on ASCII, uppercasing maps a to z onto A to Z and changes nothing else.
\<close>

theorem clean_sequence_removes_only_space_newline:
  "clean_sequence S =
     take (3 * (length [c\<leftarrow>py_upper S. c \<noteq> 32 \<and> c \<noteq> 10] div 3)) [c\<leftarrow>py_upper S. c \<noteq> 32 \<and> c \<noteq> 10]
   \<and> 32 \<notin> set (clean_sequence S) \<and> 10 \<notin> set (clean_sequence S)
   \<and> (c < 128 \<longrightarrow> upper_char c = (if 97 \<le> c \<and> c \<le> 122 then [c - 32] else [c]))
   \<and> clean_sequence [97, 9, 99] = [65, 9, 67]
   \<and> clean_sequence [110, 13, 122] = [78, 13, 90]
   \<and> clean_sequence (str ''a t\<newline>gnzn'') = str ''ATGNZN''"
proof -
  let ?u = "[c\<leftarrow>py_upper S. c \<noteq> 32 \<and> c \<noteq> 10]"
  have n: "length ?u - length ?u mod 3 = 3 * (length ?u div 3)"
    by (simp add: minus_mod_eq_mult_div)
  have a: "clean_sequence S = take (3 * (length ?u div 3)) ?u"
    using clean_sequence_filter [of S] by (simp only: n)
  have b: "32 \<notin> set (clean_sequence S)" "10 \<notin> set (clean_sequence S)"
    using clean_sequence_set [of S] by auto
  have c: "c < 128 \<longrightarrow> upper_char c = (if 97 \<le> c \<and> c \<le> 122 then [c - 32] else [c])"
    by (simp add: upper_char_ascii)
  have d: "clean_sequence [97, 9, 99] = [65, 9, 67]"
    by (simp add: clean_sequence_filter py_upper_def upper_char_ascii)
  have e: "clean_sequence [110, 13, 122] = [78, 13, 90]"
    by (simp add: clean_sequence_filter py_upper_def upper_char_ascii)
  have f: "clean_sequence (str ''a t\<newline>gnzn'') = str ''ATGNZN''"
    by (simp add: clean_sequence_filter py_upper_def upper_char_ascii str_def)
  from a b c d e f show ?thesis by blast
qed

theorem clean_sequence_removes_only_space_newline_witness:
  "(110::nat) < 128 \<and> upper_char 110 = [78] \<and> upper_char 9 = [9] \<and> upper_char 13 = [13]"
proof -
  have "(110::nat) < 128 \<longrightarrow> upper_char 110 = (if 97 \<le> (110::nat) \<and> (110::nat) \<le> 122 then [110 - 32] else [110])"
    using clean_sequence_removes_only_space_newline [of "[]" 110] by blast
  moreover have "(9::nat) < 128 \<longrightarrow> upper_char 9 = (if 97 \<le> (9::nat) \<and> (9::nat) \<le> 122 then [9 - 32] else [9])"
    using clean_sequence_removes_only_space_newline [of "[]" 9] by blast
  moreover have "(13::nat) < 128 \<longrightarrow> upper_char 13 = (if 97 \<le> (13::nat) \<and> (13::nat) \<le> 122 then [13 - 32] else [13])"
    using clean_sequence_removes_only_space_newline [of "[]" 13] by blast
  ultimately show ?thesis by simp
qed

section \<open>Codons\<close>

text \<open>
  C2. A sequence whose length \<open>L\<close> is a multiple of 3 is split into exactly \<open>L div 3\<close>
  codons of 3 characters each; the \<open>k\<close>-th codon is the slice of the sequence from
  \<open>3 * k\<close> to \<open>3 * k + 3\<close>, so the codons are contiguous, do not overlap and are in the
  order of the sequence; their concatenation is the sequence; the empty sequence gives
  the empty list.
\<close>

theorem split_into_codons_partition:
  assumes "length S mod 3 = 0"
  shows "length (split_into_codons S) = length S div 3
    \<and> (\<forall>c\<in>set (split_into_codons S). length c = 3)
    \<and> (\<forall>k<length S div 3. split_into_codons S ! k = take 3 (drop (3 * k) S))
    \<and> concat (split_into_codons S) = S
    \<and> split_into_codons [] = []"
proof -
  let ?m = "length S div 3"
  from assms have m: "(length S + 2) div 3 = ?m" and n: "length S = 3 * ?m"
    by presburger+
  have eq: "split_into_codons S = map (\<lambda>k. take 3 (drop (3 * k) S)) [0..<?m]"
    by (simp only: split_into_codons_chunks m)
  have a: "length (split_into_codons S) = ?m"
    by (simp add: eq)
  have b: "\<forall>c\<in>set (split_into_codons S). length c = 3"
  proof
    fix c assume "c \<in> set (split_into_codons S)"
    then obtain k where k: "k < ?m" and c: "c = take 3 (drop (3 * k) S)"
      by (auto simp: eq)
    from k n have "3 * k + 3 \<le> length S" by arith
    then show "length c = 3" by (simp add: c)
  qed
  have c: "\<forall>k<?m. split_into_codons S ! k = take 3 (drop (3 * k) S)"
    by (simp add: eq)
  have "concat (split_into_codons S) = take (3 * ?m) S"
    by (simp only: eq concat_chunks)
  then have d: "concat (split_into_codons S) = S"
    using n by simp
  have e: "split_into_codons [] = []"
    by (simp add: split_into_codons_chunks)
  from a b c d e show ?thesis by blast
qed

theorem split_into_codons_partition_witness:
  "length (str ''ATGAAATAG'') mod 3 = 0
   \<and> split_into_codons (str ''ATGAAATAG'') = [str ''ATG'', str ''AAA'', str ''TAG'']
   \<and> length (split_into_codons (str ''ATGAAATAG'')) = length (str ''ATGAAATAG'') div 3
   \<and> concat (split_into_codons (str ''ATGAAATAG'')) = str ''ATGAAATAG''"
proof -
  have h: "length (str ''ATGAAATAG'') mod 3 = 0"
    by (simp add: str_def)
  have v: "split_into_codons (str ''ATGAAATAG'') = [str ''ATG'', str ''AAA'', str ''TAG'']"
    by (simp add: split_into_codons_def py_range_def py_slice_def str_def upt_conv_Cons)
  from h v split_into_codons_partition [OF h] show ?thesis by blast
qed

section \<open>Translation\<close>

text \<open>
  C3. For a codon table whose entries are single letters, the translation of a list of
  codons is the concatenation, in the order of the list, of the table entry of each codon
  or of the unknown marker where the table has no entry; it has one character for each
  codon. The translation is a total function: it has a value for every list of codons.
\<close>

theorem translate_codons_length:
  assumes "\<forall>c v. table c = Some v \<longrightarrow> length v = 1"
  shows "translate_codons_with table C =
       concat (map (\<lambda>c. case table c of None \<Rightarrow> str ''X'' | Some v \<Rightarrow> v) C)
    \<and> length (translate_codons_with table C) = length C
    \<and> (\<forall>i<length C. [translate_codons_with table C ! i] =
          (case table (C ! i) of None \<Rightarrow> str ''X'' | Some v \<Rightarrow> v))"
proof -
  have one: "\<forall>c\<in>set C. length (dict_get table c (str ''X'')) = 1"
    using assms by (simp add: dict_get_single)
  have eq: "translate_codons_with table C = map (\<lambda>c. hd (dict_get table c (str ''X''))) C"
    unfolding translate_codons_with_def using one by (rule concat_singletons)
  have a: "translate_codons_with table C =
       concat (map (\<lambda>c. case table c of None \<Rightarrow> str ''X'' | Some v \<Rightarrow> v) C)"
    by (simp add: translate_codons_with_def dict_get_def)
  have b: "length (translate_codons_with table C) = length C"
    by (simp add: eq)
  have c: "\<forall>i<length C. [translate_codons_with table C ! i] =
          (case table (C ! i) of None \<Rightarrow> str ''X'' | Some v \<Rightarrow> v)"
  proof (intro allI impI)
    fix i assume i: "i < length C"
    then have "length (dict_get table (C ! i) (str ''X'')) = 1"
      using one by simp
    then have "[hd (dict_get table (C ! i) (str ''X''))] = dict_get table (C ! i) (str ''X'')"
      by (cases "dict_get table (C ! i) (str ''X'')") simp_all
    then show "[translate_codons_with table C ! i] =
          (case table (C ! i) of None \<Rightarrow> str ''X'' | Some v \<Rightarrow> v)"
      using i by (simp add: eq dict_get_def)
  qed
  from a b c show ?thesis by blast
qed

theorem translate_codons_length_witness:
  "ran CODON_TABLE \<subseteq> {v. length v = 1}
   \<and> length (translate_codons [str ''ATG'', str ''NNN'', str ''TAG'']) = 3
   \<and> translate_codons [str ''ATG'', str ''NNN'', str ''TAG''] = str ''MX_''"
proof -
  have h: "\<forall>c v. CODON_TABLE c = Some v \<longrightarrow> length v = 1"
    by (auto dest: CODON_TABLE_single)
  have v: "translate_codons [str ''ATG'', str ''NNN'', str ''TAG''] = str ''MX_''"
    by (simp add: translate_codons_def translate_codons_with_def dict_get_def CODON_TABLE_def
        str_def)
  from translate_codons_length [OF h, of "[str ''ATG'', str ''NNN'', str ''TAG'']"]
  have "length (translate_codons_with CODON_TABLE [str ''ATG'', str ''NNN'', str ''TAG''])
      = length [str ''ATG'', str ''NNN'', str ''TAG'']"
    by blast
  then have "length (translate_codons [str ''ATG'', str ''NNN'', str ''TAG'']) = 3"
    by (simp add: translate_codons_def)
  moreover have "ran CODON_TABLE \<subseteq> {v. length v = 1}"
    using h by (auto simp: ran_def)
  ultimately show ?thesis using v by blast
qed

text \<open>
  C8. The codon \<open>NNN\<close> has no entry in the codon table and translates to the unknown
  marker, not to the stop marker; the stop codons \<open>TAA\<close>, \<open>TAG\<close> and \<open>TGA\<close> have entries
  and translate to the stop marker, which differs from the unknown marker. Translating
  an unrecognised codon yields a value as for any other codon.
\<close>

theorem unknown_codon_is_not_stop:
  "CODON_TABLE (str ''NNN'') = None
   \<and> translate_codons [str ''NNN''] = str ''X''
   \<and> translate_codons [str ''NNN''] \<noteq> str ''_''
   \<and> translate_codons [str ''TAA''] = str ''_''
   \<and> translate_codons [str ''TAG''] = str ''_''
   \<and> translate_codons [str ''TGA''] = str ''_''
   \<and> str ''_'' \<noteq> str ''X''"
  by (simp add: translate_codons_def translate_codons_with_def dict_get_def CODON_TABLE_def
      str_def)

text \<open>
  C9. The marker that the translation puts for a codon without a table entry is the single
  character \<open>X\<close> (code point 88). It differs from the character \<open>_\<close>, the key under which
  both amino-acid name tables hold \<open>Stop\<close>. The translation of the empty list is the empty
  string, and a further codon at the end of a list appends its table entry, or \<open>X\<close> when
  it has none, to the translation of the list: every codon without an entry contributes
  exactly the one character \<open>X\<close>, a list of such codons translates to as many \<open>X\<close>, and
  for a table of single letters every list of codons translates to one character for each
  codon.
\<close>

theorem unknown_marker_is_X:
  "translate_codons_with table [] = []
   \<and> translate_codons_with table (C @ [codon]) =
       translate_codons_with table C @ (case table codon of None \<Rightarrow> [88] | Some v \<Rightarrow> v)
   \<and> (table codon = None \<longrightarrow>
        translate_codons_with table (C @ [codon]) = translate_codons_with table C @ str ''X''
        \<and> length (translate_codons_with table (C @ [codon])) =
            length (translate_codons_with table C) + 1)
   \<and> ((\<forall>c\<in>set C. table c = None) \<longrightarrow>
        translate_codons_with table C = replicate (length C) 88)
   \<and> ((\<forall>c v. table c = Some v \<longrightarrow> length v = 1) \<longrightarrow>
        length (translate_codons_with table C) = length C)
   \<and> str ''X'' = [88] \<and> str ''_'' = [95] \<and> str ''X'' \<noteq> str ''_''
   \<and> AA_ABBREV (str ''_'') = Some (str ''Stop'') \<and> AA_FULL (str ''_'') = Some (str ''Stop'')
   \<and> AA_ABBREV (str ''X'') = Some (str ''???'') \<and> AA_FULL (str ''X'') = Some (str ''Unknown'')"
proof -
  have a: "translate_codons_with table [] = []"
    by (simp add: translate_codons_with_def)
  have b: "translate_codons_with table (C @ [codon]) =
       translate_codons_with table C @ (case table codon of None \<Rightarrow> [88] | Some v \<Rightarrow> v)"
    by (rule translate_codons_with_snoc)
  have x: "str ''X'' = [88]" "str ''_'' = [95]" "str ''X'' \<noteq> str ''_''"
    by (simp_all add: str_def)
  have c: "table codon = None \<longrightarrow>
        translate_codons_with table (C @ [codon]) = translate_codons_with table C @ str ''X''
        \<and> length (translate_codons_with table (C @ [codon])) =
            length (translate_codons_with table C) + 1"
    by (simp add: translate_codons_with_snoc x(1))
  have d: "(\<forall>c\<in>set C. table c = None) \<longrightarrow>
        translate_codons_with table C = replicate (length C) 88"
    by (simp add: translate_codons_with_all_unknown)
  have e: "(\<forall>c v. table c = Some v \<longrightarrow> length v = 1) \<longrightarrow>
        length (translate_codons_with table C) = length C"
    by (simp add: translate_codons_with_length)
  have f: "AA_ABBREV (str ''_'') = Some (str ''Stop'')" "AA_ABBREV (str ''X'') = Some (str ''???'')"
    by (simp_all add: AA_ABBREV_def str_def)
  have g: "AA_FULL (str ''_'') = Some (str ''Stop'')" "AA_FULL (str ''X'') = Some (str ''Unknown'')"
    by (simp_all add: AA_FULL_def str_def)
  from a b c d e x f g show ?thesis by blast
qed

theorem unknown_marker_is_X_witness:
  "CODON_TABLE (str ''NNN'') = None
   \<and> set [str ''ZZZ'', str ''ATN''] \<subseteq> {c. CODON_TABLE c = None}
   \<and> ran CODON_TABLE \<subseteq> {v. length v = 1}
   \<and> translate_codons_with CODON_TABLE [str ''ZZZ'', str ''ATN''] = str ''XX''
   \<and> translate_codons_with CODON_TABLE ([str ''ZZZ'', str ''ATN''] @ [str ''NNN'']) = str ''XXX''
   \<and> length (translate_codons_with CODON_TABLE [str ''ZZZ'', str ''ATN'']) = 2"
proof -
  let ?C = "[str ''ZZZ'', str ''ATN'']"
  note inst = unknown_marker_is_X [where table = CODON_TABLE and C = ?C and codon = "str ''NNN''"]
  have h1: "CODON_TABLE (str ''NNN'') = None"
    by (simp add: CODON_TABLE_def str_def)
  have h2: "\<forall>c\<in>set ?C. CODON_TABLE c = None"
    by (simp add: CODON_TABLE_def str_def)
  have h3: "\<forall>c v. CODON_TABLE c = Some v \<longrightarrow> length v = 1"
    by (auto dest: CODON_TABLE_single)
  from inst h2 have v1: "translate_codons_with CODON_TABLE ?C = replicate (length ?C) 88"
    by blast
  from inst h1 have v2: "translate_codons_with CODON_TABLE (?C @ [str ''NNN'']) =
      translate_codons_with CODON_TABLE ?C @ str ''X''"
    by blast
  from inst h3 have v3: "length (translate_codons_with CODON_TABLE ?C) = length ?C"
    by blast
  have s2: "set ?C \<subseteq> {c. CODON_TABLE c = None}"
    using h2 by blast
  have s3: "ran CODON_TABLE \<subseteq> {v. length v = 1}"
    using h3 by (auto simp: ran_def)
  have w1: "translate_codons_with CODON_TABLE ?C = str ''XX''"
    using v1 by (simp add: str_def)
  have w2: "translate_codons_with CODON_TABLE (?C @ [str ''NNN'']) = str ''XXX''"
    using v2 w1 by (simp add: str_def)
  have w3: "length (translate_codons_with CODON_TABLE ?C) = 2"
    using v3 by simp
  from h1 s2 s3 w1 w2 w3 show ?thesis by blast
qed

section \<open>Codon usage\<close>

text \<open>
  C4. The usage count of a list of codons has exactly the distinct codons of the list as
  keys, each once; the value of a key is the number of its occurrences in the list, which
  is at least 1; a codon that does not occur is not a key; the values add up to the length
  of the list.
\<close>

theorem count_codon_usage_counts:
  "distinct (map fst (count_codon_usage C))
   \<and> fst ` set (count_codon_usage C) = set C
   \<and> (\<forall>k\<in>set C. map_of (count_codon_usage C) k = Some (int (count_list C k)))
   \<and> (\<forall>(k, v)\<in>set (count_codon_usage C). v = int (count_list C k) \<and> 1 \<le> v)
   \<and> (\<forall>k. k \<notin> set C \<longrightarrow> map_of (count_codon_usage C) k = None)
   \<and> sum_list (map snd (count_codon_usage C)) = int (length C)"
proof -
  let ?m = "count_codon_usage C"
  have a: "distinct (map fst ?m)" by (rule count_codon_usage_distinct)
  have "dom (map_of ?m) = set C"
    by (auto simp: count_codon_usage_map_of dom_def)
  then have b: "fst ` set ?m = set C"
    by (simp add: dom_map_of_conv_image_fst)
  have c: "\<forall>k\<in>set C. map_of ?m k = Some (int (count_list C k))"
    by (simp add: count_codon_usage_map_of)
  have d: "\<forall>(k, v)\<in>set ?m. v = int (count_list C k) \<and> 1 \<le> v"
  proof (clarify, rule conjI)
    fix k v assume "(k, v) \<in> set ?m"
    with a have "map_of ?m k = Some v" by simp
    then have k: "k \<in> set C" and v: "v = int (count_list C k)"
      by (auto simp: count_codon_usage_map_of split: if_splits)
    from k have "count_list C k \<noteq> 0" by (simp add: count_list_0_iff)
    with v show "v = int (count_list C k)" and "1 \<le> v" by simp_all
  qed
  have e: "\<forall>k. k \<notin> set C \<longrightarrow> map_of ?m k = None"
    by (simp add: count_codon_usage_map_of)
  have f: "sum_list (map snd ?m) = int (length C)"
    by (simp add: count_codon_usage_def foldl_count_step_sum)
  from a b c d e f show ?thesis by blast
qed

theorem count_codon_usage_counts_witness:
  "count_codon_usage [str ''ATG'', str ''AAA'', str ''ATG''] = [(str ''ATG'', 2), (str ''AAA'', 1)]
   \<and> str ''TAG'' \<notin> set [str ''ATG'', str ''AAA'', str ''ATG'']
   \<and> map_of (count_codon_usage [str ''ATG'', str ''AAA'', str ''ATG'']) (str ''TAG'') = None
   \<and> sum_list (map snd (count_codon_usage [str ''ATG'', str ''AAA'', str ''ATG''])) = 3"
proof -
  have v: "count_codon_usage [str ''ATG'', str ''AAA'', str ''ATG'']
      = [(str ''ATG'', 2), (str ''AAA'', 1)]"
    by (simp add: count_codon_usage_def count_step_def dd_getitem_def dd_setitem_def str_def)
  have h: "str ''TAG'' \<notin> set [str ''ATG'', str ''AAA'', str ''ATG'']"
    by (simp add: str_def)
  from count_codon_usage_counts [of "[str ''ATG'', str ''AAA'', str ''ATG'']"]
  have "map_of (count_codon_usage [str ''ATG'', str ''AAA'', str ''ATG'']) (str ''TAG'') = None"
    and "sum_list (map snd (count_codon_usage [str ''ATG'', str ''AAA'', str ''ATG''])) = 3"
    using h by simp_all
  with v h show ?thesis by blast
qed

text \<open>
  C10. Reading the usage count at a codon with \<open>codon_count[codon]\<close> returns the number
  of occurrences of the codon in the list; for a codon that does not occur in the list it
  returns 0, and neither an error nor a missing-key value.
\<close>

theorem count_codon_usage_default:
  "fst (dd_getitem (count_codon_usage C) k) = int (count_list C k)
   \<and> (k \<notin> set C \<longrightarrow> fst (dd_getitem (count_codon_usage C) k) = 0)"
  by (simp add: dd_getitem_def count_codon_usage_map_of)

theorem count_codon_usage_default_witness:
  "str ''TAG'' \<notin> set [str ''ATG'', str ''AAA'']
   \<and> fst (dd_getitem (count_codon_usage [str ''ATG'', str ''AAA'']) (str ''TAG'')) = 0"
proof -
  have h: "str ''TAG'' \<notin> set [str ''ATG'', str ''AAA'']"
    by (simp add: str_def)
  from h count_codon_usage_default [of "[str ''ATG'', str ''AAA'']" "str ''TAG''"]
  show ?thesis by blast
qed

section \<open>GC content\<close>

text \<open>
  C5. For roundings that are monotone and leave 0, 1 and 100 unchanged, the GC content of
  a string is \<open>round(((g+c)/len(S))*100, 2)\<close> for the numbers \<open>g\<close> and \<open>c\<close> of occurrences
  of the characters G and C, lowercase letters not counted, and lies between 0 and 100. It
  is 0 for the empty string, where the guard avoids the division by zero, and it is 0 as
  well for every string without G and C, empty or not.
\<close>

theorem calculate_gc_content_range:
  assumes "mono fl" and "fl 0 = 0" and "fl 1 = 1" and "fl 100 = 100"
    and "mono round2" and "round2 0 = 0" and "round2 100 = 100"
  shows "calculate_gc_content fl round2 S =
       (if length S = 0 then 0
        else round2 (fl (fl (real (count_list S 71 + count_list S 67) / real (length S)) * 100)))
    \<and> 0 \<le> calculate_gc_content fl round2 S
    \<and> calculate_gc_content fl round2 S \<le> 100
    \<and> (length S = 0 \<longrightarrow> calculate_gc_content fl round2 S = 0)
    \<and> (count_list S 71 + count_list S 67 = 0 \<longrightarrow> calculate_gc_content fl round2 S = 0)
    \<and> calculate_gc_content fl round2 (str ''gcgc'') = 0
    \<and> calculate_gc_content fl round2 (str ''GGGCCC'') = 100"
proof -
  let ?n = "count_list S 71 + count_list S 67"
  let ?q = "real ?n / real (length S)"
  have a: "calculate_gc_content fl round2 S =
       (if length S = 0 then 0 else round2 (fl (fl ?q * 100)))"
    by (simp add: calculate_gc_content_def)
  have n: "?n \<le> length S"
    by (rule count_list_two_le) simp
  have range: "0 \<le> round2 (fl (fl ?q * 100)) \<and> round2 (fl (fl ?q * 100)) \<le> 100"
    if "length S \<noteq> 0"
  proof -
    from that n have q0: "0 \<le> ?q" and q1: "?q \<le> 1"
      by simp_all
    have "fl 0 \<le> fl ?q" and "fl ?q \<le> fl 1"
      using monoD [OF assms(1) q0] monoD [OF assms(1) q1] by blast+
    then have x0: "0 \<le> fl ?q * 100" and x1: "fl ?q * 100 \<le> 100"
      using assms(2,3) by simp_all
    have "fl 0 \<le> fl (fl ?q * 100)" and "fl (fl ?q * 100) \<le> fl 100"
      using monoD [OF assms(1) x0] monoD [OF assms(1) x1] by blast+
    then have y0: "0 \<le> fl (fl ?q * 100)" and y1: "fl (fl ?q * 100) \<le> 100"
      using assms(2,4) by simp_all
    have "round2 0 \<le> round2 (fl (fl ?q * 100))" and "round2 (fl (fl ?q * 100)) \<le> round2 100"
      using monoD [OF assms(5) y0] monoD [OF assms(5) y1] by blast+
    then show ?thesis
      using assms(6,7) by simp
  qed
  have b: "0 \<le> calculate_gc_content fl round2 S" "calculate_gc_content fl round2 S \<le> 100"
    using range by (auto simp: a)
  have c: "length S = 0 \<longrightarrow> calculate_gc_content fl round2 S = 0"
    by (simp add: calculate_gc_content_def)
  have d: "?n = 0 \<longrightarrow> calculate_gc_content fl round2 S = 0"
    using assms(2,6) by (simp add: calculate_gc_content_def)
  have e: "calculate_gc_content fl round2 (str ''gcgc'') = 0"
    using assms(2,6) by (simp add: calculate_gc_content_def str_def)
  have f: "calculate_gc_content fl round2 (str ''GGGCCC'') = 100"
    using assms(3,4,7) by (simp add: calculate_gc_content_def str_def)
  from a b c d e f show ?thesis by blast
qed

theorem calculate_gc_content_range_witness:
  "mono (id :: real \<Rightarrow> real)
   \<and> calculate_gc_content id id (str ''ATGAAATAG'') = 200 / 9
   \<and> 0 \<le> calculate_gc_content id id (str ''ATGAAATAG'')
   \<and> calculate_gc_content id id (str ''ATGAAATAG'') \<le> 100
   \<and> calculate_gc_content id id (str ''GGGCCC'') = 100
   \<and> length ([] :: pystr) = 0
   \<and> calculate_gc_content id id [] = 0"
proof -
  have m: "mono (id :: real \<Rightarrow> real)"
    by (simp add: mono_def)
  note inst = calculate_gc_content_range [OF m _ _ _ m, of "str ''ATGAAATAG''", simplified]
  note inst0 = calculate_gc_content_range [OF m _ _ _ m, of "[]", simplified]
  have v: "calculate_gc_content id id (str ''ATGAAATAG'') = 200 / 9"
    by (simp add: calculate_gc_content_def str_def)
  from inst have r: "0 \<le> calculate_gc_content id id (str ''ATGAAATAG'')"
    "calculate_gc_content id id (str ''ATGAAATAG'') \<le> 100"
    "calculate_gc_content id id (str ''GGGCCC'') = 100"
    by simp_all
  from inst0 have z: "calculate_gc_content id id [] = 0"
    by simp
  from m v r z show ?thesis by simp
qed

text \<open>
  As stated, the claim makes 0 the result of the empty string only. The string \<open>AAA\<close> is
  not empty and has the result 0 too: every value of the computation is 0 there, which
  no rounding changes, so exact arithmetic shows it.
\<close>

theorem calculate_gc_content_zero_counterexample:
  "\<not> (calculate_gc_content id id (str ''AAA'') = 0 \<longleftrightarrow> length (str ''AAA'') = 0)"
  by (simp add: calculate_gc_content_def str_def)

end
